theory Spec2Isabelle
  imports Main "HOL-Library.AList" "HOL-Library.Sublist" "HOL-Library.List_Lexorder" "HOL-Library.Char_ord"
begin

section \<open>JavaScript values as the handlers see them\<close>

text \<open>
  The webhook payload, the embedded \<^verbatim>\<open>rawRequest\<close> and the product field are values of
  type \<^verbatim>\<open>any\<close>: whatever the body parser and \<^verbatim>\<open>JSON.parse\<close> deliver. A string is a list
  of 8-bit code units. Numbers are IEEE doubles in the source; they are kept abstract (the type
  parameter \<open>'n\<close>) and every operation on them is taken from the platform record below.
  An object is its list of own properties, in property order.
\<close>

datatype 'n jsval =
    JUndef
  | JNull
  | JBool bool
  | JNum 'n
  | JStr string
  | JArr "'n jsval list"
  | JObj "(string \<times> 'n jsval) list"

text \<open>
  What the source takes from the language runtime: \<^verbatim>\<open>JSON.parse\<close> (\<open>None\<close> is the
  \<^verbatim>\<open>SyntaxError\<close>), the number operations, and the reading of the clock by \<^verbatim>\<open>Date.now()\<close>
  in the call of \<^verbatim>\<open>parseFormFields\<close> that returns.
\<close>

record 'n platform =
  JSON_parse :: "string \<Rightarrow> 'n jsval option"
  num_truthy :: "'n \<Rightarrow> bool"
  num_show :: "'n \<Rightarrow> string"
  parseInt10 :: "string \<Rightarrow> 'n"
  parseFloat :: "string \<Rightarrow> 'n"
  str_num :: "string \<Rightarrow> 'n"
  num_times :: "'n \<Rightarrow> 'n \<Rightarrow> 'n"
  num_nat :: "nat \<Rightarrow> 'n"
  num_nan :: "'n"
  Date_now :: nat

definition digit_char :: "nat \<Rightarrow> char" where
  "digit_char d = ''0123456789'' ! d"

text \<open>Decimal digits of a non-negative integer, as \<^verbatim>\<open>String(n)\<close> writes an array index or a
  timestamp.\<close>

function show_nat :: "nat \<Rightarrow> string" where
  "show_nat n = (if n < 10 then [digit_char n] else show_nat (n div 10) @ [digit_char (n mod 10)])"
  by pat_completeness auto
termination by (relation "measure id") auto

declare show_nat.simps [simp del]

text \<open>Truthiness, as \<^verbatim>\<open>if (x)\<close>, \<^verbatim>\<open>!x\<close> and \<^verbatim>\<open>x || y\<close> test it.\<close>

fun truthy :: "'n platform \<Rightarrow> 'n jsval \<Rightarrow> bool" where
  "truthy pf JUndef = False"
| "truthy pf JNull = False"
| "truthy pf (JBool b) = b"
| "truthy pf (JNum n) = num_truthy pf n"
| "truthy pf (JStr s) = (s \<noteq> [])"
| "truthy pf (JArr xs) = True"
| "truthy pf (JObj kvs) = True"

text \<open>\<^verbatim>\<open>a || b\<close>.\<close>

definition js_or :: "'n platform \<Rightarrow> 'n jsval \<Rightarrow> 'n jsval \<Rightarrow> 'n jsval" where
  "js_or pf a b = (if truthy pf a then a else b)"

text \<open>\<^verbatim>\<open>typeof v === 'object' && v !== null\<close>.\<close>

fun is_object :: "'n jsval \<Rightarrow> bool" where
  "is_object (JArr xs) = True"
| "is_object (JObj kvs) = True"
| "is_object v = False"

text \<open>\<^verbatim>\<open>typeof v === 'object'\<close>: also true of \<^verbatim>\<open>null\<close>.\<close>

fun typeof_object :: "'n jsval \<Rightarrow> bool" where
  "typeof_object JNull = True"
| "typeof_object v = is_object v"


fun is_nullish :: "'n jsval \<Rightarrow> bool" where
  "is_nullish JUndef = True"
| "is_nullish JNull = True"
| "is_nullish v = False"

text \<open>
  Reading property \<open>k\<close> of a value that is neither \<^verbatim>\<open>undefined\<close> nor \<^verbatim>\<open>null\<close> (on those
  the read throws, which the callers test before). The source reads only literal keys, none of
  which is a property of a built-in prototype; on an array or a string the keys that resolve
  are the indices.
\<close>

fun get_prop :: "'n jsval \<Rightarrow> string \<Rightarrow> 'n jsval" where
  "get_prop (JObj kvs) k = (case map_of kvs k of Some v \<Rightarrow> v | None \<Rightarrow> JUndef)"
| "get_prop (JArr xs) k =
     (case find (\<lambda>i. show_nat i = k) [0..<length xs] of Some i \<Rightarrow> xs ! i | None \<Rightarrow> JUndef)"
| "get_prop (JStr s) k =
     (case find (\<lambda>i. show_nat i = k) [0..<length s] of Some i \<Rightarrow> JStr [s ! i] | None \<Rightarrow> JUndef)"
| "get_prop v k = JUndef"

definition join_comma :: "string list \<Rightarrow> string" where
  "join_comma ss = (case ss of [] \<Rightarrow> [] | s # r \<Rightarrow> s @ concat (map (\<lambda>t. CHR '','' # t) r))"

text \<open>
  \<^verbatim>\<open>String(v)\<close> and the conversion a template literal applies. An object converts through
  \<^verbatim>\<open>Object.prototype.toString\<close>; when it has an own property \<^verbatim>\<open>toString\<close> (a data value, not
  callable) the conversion throws a \<^verbatim>\<open>TypeError\<close>, which is \<open>None\<close> here. An array joins
  its elements with commas, \<^verbatim>\<open>undefined\<close> and \<^verbatim>\<open>null\<close> elements as empty strings.
\<close>

fun js_to_string :: "'n platform \<Rightarrow> 'n jsval \<Rightarrow> string option" where
  "js_to_string pf JUndef = Some ''undefined''"
| "js_to_string pf JNull = Some ''null''"
| "js_to_string pf (JBool b) = Some (if b then ''true'' else ''false'')"
| "js_to_string pf (JNum n) = Some (num_show pf n)"
| "js_to_string pf (JStr s) = Some s"
| "js_to_string pf (JArr xs) =
     map_option join_comma
       (those (map (\<lambda>x. if is_nullish x then Some [] else js_to_string pf x) xs))"
| "js_to_string pf (JObj kvs) =
     (if ''toString'' \<in> fst ` set kvs then None else Some ''[object Object]'')"

text \<open>The conversion to a number that \<^verbatim>\<open>*\<close> applies to an operand.\<close>

fun js_to_number :: "'n platform \<Rightarrow> 'n jsval \<Rightarrow> 'n option" where
  "js_to_number pf JUndef = Some (num_nan pf)"
| "js_to_number pf JNull = Some (num_nat pf 0)"
| "js_to_number pf (JBool b) = Some (num_nat pf (if b then 1 else 0))"
| "js_to_number pf (JNum n) = Some n"
| "js_to_number pf v = map_option (str_num pf) (js_to_string pf v)"

text \<open>White space as \<^verbatim>\<open>String.prototype.trim\<close> and the class \<^verbatim>\<open>\s\<close> know it, among the
  8-bit code units: TAB, LF, VT, FF, CR, SP, NBSP.\<close>

definition is_space :: "char \<Rightarrow> bool" where
  "is_space c = (of_char c \<in> {9, 10, 11, 12, 13, 32, 160 :: nat})"

definition is_digit :: "char \<Rightarrow> bool" where
  "is_digit c = (48 \<le> (of_char c :: nat) \<and> (of_char c :: nat) \<le> 57)"

definition js_trim :: "string \<Rightarrow> string" where
  "js_trim s = rev (dropWhile is_space (rev (dropWhile is_space s)))"

text \<open>\<^verbatim>\<open>s.startsWith(p)\<close> is \<^const>\<open>prefix\<close>; \<^verbatim>\<open>s.substring(n)\<close> is \<^const>\<open>drop\<close>.\<close>

section \<open>The product parser\<close>

text \<open>The three variables \<^verbatim>\<open>parseProductDetails\<close> assigns and returns.\<close>

record 'n product =
  pd_quantity :: 'n
  pd_productDetails :: string
  pd_totalAmount :: 'n

text \<open>
  An unanchored search for a pattern that begins with a literal: \<open>at\<close> tries the pattern at
  the current position, and the first position that matches wins.
\<close>

fun rx_search :: "(string \<Rightarrow> string option) \<Rightarrow> string \<Rightarrow> string option" where
  "rx_search at [] = at []"
| "rx_search at (c # cs) =
     (case at (c # cs) of Some g \<Rightarrow> Some g | None \<Rightarrow> rx_search at cs)"

text \<open>\<^verbatim>\<open>/Quantity:\s*(\d+)/\<close> at one position: the result is capture group 1.\<close>

definition quantity_at :: "string \<Rightarrow> string option" where
  "quantity_at s =
     (if prefix ''Quantity:'' s then
        (let d = takeWhile is_digit (dropWhile is_space (drop 9 s))
         in if d = [] then None else Some d)
      else None)"

text \<open>\<^verbatim>\<open>/Amount:\s*([\d.]+)/\<close> at one position.\<close>

definition amount_at :: "string \<Rightarrow> string option" where
  "amount_at s =
     (if prefix ''Amount:'' s then
        (let d = takeWhile (\<lambda>c. is_digit c \<or> c = CHR ''.'') (dropWhile is_space (drop 7 s))
         in if d = [] then None else Some d)
      else None)"

text \<open>\<^verbatim>\<open>parseInt(g, 10) || 1\<close> and \<^verbatim>\<open>parseFloat(g) || 0\<close>.\<close>

definition int_or_one :: "'n platform \<Rightarrow> string \<Rightarrow> 'n" where
  "int_or_one pf g = (if num_truthy pf (parseInt10 pf g) then parseInt10 pf g else num_nat pf 1)"

definition float_or_zero :: "'n platform \<Rightarrow> string \<Rightarrow> 'n" where
  "float_or_zero pf g = (if num_truthy pf (parseFloat pf g) then parseFloat pf g else num_nat pf 0)"

definition product_defaults :: "'n platform \<Rightarrow> 'n product" where
  "product_defaults pf =
     \<lparr>pd_quantity = num_nat pf 1, pd_productDetails = [], pd_totalAmount = num_nat pf 0\<rparr>"

text \<open>
  The body of the inner \<^verbatim>\<open>try\<close> (lines 199 to 219), run on the variables as they stand.
  \<open>Inl st\<close> is an exception raised when the variables hold \<open>st\<close>; \<open>Inr st\<close> is the normal end.
  The throw points: the conversion of the argument of \<^verbatim>\<open>JSON.parse\<close>, the parse itself,
  the property read on a \<^verbatim>\<open>null\<close> result, \<^verbatim>\<open>.match\<close> on a first product that is not a
  string, and the conversion of the argument of \<^verbatim>\<open>parseFloat\<close>.
\<close>

definition payment_body ::
  "'n platform \<Rightarrow> 'n jsval \<Rightarrow> 'n product \<Rightarrow> 'n product + 'n product" where
  "payment_body pf paymentArray st =
     (case js_to_string pf paymentArray of
        None \<Rightarrow> Inl st
      | Some txt \<Rightarrow>
         (case JSON_parse pf txt of
            None \<Rightarrow> Inl st
          | Some paymentData \<Rightarrow>
             if is_nullish paymentData then Inl st
             else
               (case
                  (case get_prop paymentData ''product'' of
                     JArr ps \<Rightarrow>
                       (case js_or pf (get_prop (JArr ps) ''0'') (JStr []) of
                          JStr productString \<Rightarrow>
                            Inr ((case rx_search quantity_at productString of
                                    Some g \<Rightarrow> st\<lparr>pd_quantity := int_or_one pf g\<rparr>
                                  | None \<Rightarrow> st)\<lparr>pd_productDetails := productString\<rparr>)
                        | _ \<Rightarrow> Inl st)
                   | _ \<Rightarrow> Inr st)
                of
                  Inl st1 \<Rightarrow> Inl st1
                | Inr st1 \<Rightarrow>
                    if truthy pf (get_prop paymentData ''total'') then
                      (case js_to_string pf (get_prop paymentData ''total'') of
                         None \<Rightarrow> Inl st1
                       | Some t \<Rightarrow> Inr (st1\<lparr>pd_totalAmount := float_or_zero pf t\<rparr>))
                    else Inr st1)))"

text \<open>The inner \<^verbatim>\<open>try\<close> with its \<^verbatim>\<open>catch\<close>, which only logs: the variables keep what was
  assigned before the throw.\<close>

definition payment_try :: "'n platform \<Rightarrow> 'n jsval \<Rightarrow> 'n product \<Rightarrow> 'n product" where
  "payment_try pf paymentArray st =
     (case payment_body pf paymentArray st of Inl st1 \<Rightarrow> st1 | Inr st1 \<Rightarrow> st1)"

text \<open>
  The direct format (lines 226 to 237), inside the outer \<^verbatim>\<open>try\<close> only: \<^verbatim>\<open>JSON.parse\<close> of
  entry \<^verbatim>\<open>'1'\<close>, then the three assignments, each behind a truthiness test.
\<close>

definition direct_body ::
  "'n platform \<Rightarrow> 'n jsval \<Rightarrow> 'n product \<Rightarrow> 'n product + 'n product" where
  "direct_body pf entry st =
     (case js_to_string pf entry of
        None \<Rightarrow> Inl st
      | Some txt \<Rightarrow>
         (case JSON_parse pf txt of
            None \<Rightarrow> Inl st
          | Some productData \<Rightarrow>
             if is_nullish productData then Inl st
             else
               (case
                  (if truthy pf (get_prop productData ''quantity'') then
                     (case js_to_string pf (get_prop productData ''quantity'') of
                        None \<Rightarrow> Inl st
                      | Some g \<Rightarrow> Inr (st\<lparr>pd_quantity := int_or_one pf g\<rparr>))
                   else Inr st)
                of
                  Inl st1 \<Rightarrow> Inl st1
                | Inr st1 \<Rightarrow>
                   (case
                      (if truthy pf (get_prop productData ''name'') then
                         (case js_to_string pf (get_prop productData ''name'') of
                            None \<Rightarrow> Inl st1
                          | Some nm \<Rightarrow>
                              Inr (st1\<lparr>pd_productDetails :=
                                     nm @ '' (Quantity: '' @ num_show pf (pd_quantity st1) @ '')''\<rparr>))
                       else Inr st1)
                    of
                      Inl st2 \<Rightarrow> Inl st2
                    | Inr st2 \<Rightarrow>
                        if truthy pf (get_prop productData ''price'') then
                          (case js_to_number pf (get_prop productData ''price'') of
                             None \<Rightarrow> Inl st2
                           | Some p \<Rightarrow>
                               Inr (st2\<lparr>pd_totalAmount := num_times pf p (pd_quantity st2)\<rparr>))
                        else Inr st2))))"

text \<open>The string format (lines 240 to 251); nothing in it throws.\<close>

definition string_body :: "'n platform \<Rightarrow> string \<Rightarrow> 'n product \<Rightarrow> 'n product" where
  "string_body pf productField st =
     (let st1 = (case rx_search quantity_at productField of
                   Some g \<Rightarrow> st\<lparr>pd_quantity := int_or_one pf g\<rparr>
                 | None \<Rightarrow> st);
          st2 = (case rx_search amount_at productField of
                   Some g \<Rightarrow>
                     st1\<lparr>pd_totalAmount := num_times pf (float_or_zero pf g) (pd_quantity st1)\<rparr>
                 | None \<Rightarrow> st1)
      in st2\<lparr>pd_productDetails := productField\<rparr>)"

text \<open>The body of the outer \<^verbatim>\<open>try\<close> (lines 192 to 252).\<close>

definition product_body :: "'n platform \<Rightarrow> 'n jsval \<Rightarrow> 'n product + 'n product" where
  "product_body pf productField =
     (let st = product_defaults pf in
      if truthy pf productField \<and> typeof_object productField then
        (let st1 = (if truthy pf (get_prop productField ''paymentArray'')
                    then payment_try pf (get_prop productField ''paymentArray'') st
                    else st)
         in if truthy pf (get_prop productField ''1'')
            then direct_body pf (get_prop productField ''1'') st1
            else Inr st1)
      else
        (case productField of
           JStr s \<Rightarrow> Inr (string_body pf s st)
         | _ \<Rightarrow> Inr st))"

text \<open>\<^verbatim>\<open>parseProductDetails\<close>: the outer \<^verbatim>\<open>catch\<close> logs a warning, and the function returns
  the three variables as they stand.\<close>

definition parseProductDetails :: "'n platform \<Rightarrow> 'n jsval \<Rightarrow> 'n product" where
  "parseProductDetails pf productField =
     (case product_body pf productField of Inl st \<Rightarrow> st | Inr st \<Rightarrow> st)"

section \<open>The field extractor\<close>

text \<open>The value \<^verbatim>\<open>parseFormFields\<close> returns. The interface declares strings and numbers; the
  function itself assigns whatever value the mapping holds, so the fields it copies are values.\<close>

record 'n ParsedSubmission =
  formId :: "'n jsval"
  email :: "'n jsval"
  name :: string
  invoiceNo :: "'n jsval"
  phone :: "'n jsval"
  church :: "'n jsval"
  quantity :: 'n
  productDetails :: string
  totalAmount :: 'n

text \<open>
  \<^verbatim>\<open>parseFormFields\<close> only reads properties of its argument, so the argument \<^verbatim>\<open>fields\<close> is given as its
  property read \<open>flds\<close>: \<^const>\<open>get_prop\<close> of the payload in flat mode, the read of the object
  built from \<^verbatim>\<open>rawRequest\<close> in nested mode.
\<close>

definition parse_formId :: "'n platform \<Rightarrow> (string \<Rightarrow> 'n jsval) \<Rightarrow> 'n jsval" where
  "parse_formId pf flds =
     js_or pf (js_or pf (js_or pf (flds ''formID'') (flds ''form_id'')) (flds ''formId''))
       (JStr [])"

text \<open>Lines 277 to 285, then lines 319 to 321.\<close>

definition parse_email :: "'n platform \<Rightarrow> (string \<Rightarrow> 'n jsval) \<Rightarrow> 'n jsval" where
  "parse_email pf flds =
     (let email0 =
        (if truthy pf (flds ''q4_email4'') then flds ''q4_email4''
         else if truthy pf (flds ''q5_email'') then flds ''q5_email''
         else if truthy pf (flds ''q4_email'') then flds ''q4_email''
         else if truthy pf (flds ''email'') then flds ''email''
         else JStr [])
      in if \<not> truthy pf email0 \<and> truthy pf (flds ''q5_email'') then flds ''q5_email''
         else email0)"

text \<open>A name value (lines 291 to 296): an object is flattened from its \<^verbatim>\<open>first\<close> and
  \<^verbatim>\<open>last\<close>, anything else goes through \<^verbatim>\<open>String\<close>. \<open>None\<close> is a thrown \<^verbatim>\<open>TypeError\<close>.\<close>

definition flatten_name :: "'n platform \<Rightarrow> 'n jsval \<Rightarrow> string option" where
  "flatten_name pf nameValue =
     (if is_object nameValue then
        (case js_to_string pf (js_or pf (get_prop nameValue ''first'') (JStr [])) of
           None \<Rightarrow> None
         | Some a \<Rightarrow>
            (case js_to_string pf (js_or pf (get_prop nameValue ''last'') (JStr [])) of
               None \<Rightarrow> None
             | Some b \<Rightarrow> Some (js_trim (a @ '' '' @ b))))
      else js_to_string pf nameValue)"

text \<open>Lines 288 to 316.\<close>

definition parse_name :: "'n platform \<Rightarrow> (string \<Rightarrow> 'n jsval) \<Rightarrow> string option" where
  "parse_name pf flds =
     (if truthy pf (flds ''q4_fullName'') \<or> truthy pf (flds ''q4_name'') then
        flatten_name pf (js_or pf (flds ''q4_fullName'') (flds ''q4_name''))
      else if truthy pf (flds ''q3_ltstronggtnameltstronggt'') then
        flatten_name pf (flds ''q3_ltstronggtnameltstronggt'')
      else if truthy pf (flds ''q3_name'') then
        flatten_name pf (flds ''q3_name'')
      else if truthy pf (flds ''q3_name[first]'') \<and> truthy pf (flds ''q3_name[last]'') then
        (case js_to_string pf (flds ''q3_name[first]'') of
           None \<Rightarrow> None
         | Some a \<Rightarrow>
            (case js_to_string pf (flds ''q3_name[last]'') of
               None \<Rightarrow> None
             | Some b \<Rightarrow> Some (js_trim (a @ '' '' @ b))))
      else if truthy pf (flds ''name'') then js_to_string pf (flds ''name'')
      else Some [])"

text \<open>Lines 323 to 335.\<close>

definition parse_product :: "'n platform \<Rightarrow> (string \<Rightarrow> 'n jsval) \<Rightarrow> 'n product" where
  "parse_product pf flds =
     (if truthy pf (flds ''q3_products'') \<or> truthy pf (flds ''q3_myProducts'')
         \<or> truthy pf (flds ''3'')
      then parseProductDetails pf
             (js_or pf (js_or pf (flds ''q3_products'') (flds ''q3_myProducts'')) (flds ''3''))
      else product_defaults pf)"

text \<open>Lines 338 to 355. Only \<^verbatim>\<open>q11_phoneNumber\<close> looks at the shape of its value.\<close>

definition parse_phone :: "'n platform \<Rightarrow> (string \<Rightarrow> 'n jsval) \<Rightarrow> 'n jsval option" where
  "parse_phone pf flds =
     (if truthy pf (flds ''q7_phone'') \<or> truthy pf (flds ''q7_phoneNumber'') then
        Some (js_or pf (flds ''q7_phone'') (flds ''q7_phoneNumber''))
      else if truthy pf (flds ''q16_ltstronggtphoneNumberltstronggt'') then
        Some (flds ''q16_ltstronggtphoneNumberltstronggt'')
      else if truthy pf (flds ''q11_phoneNumber'') then
        (if is_object (flds ''q11_phoneNumber'') then
           (if truthy pf (get_prop (flds ''q11_phoneNumber'') ''full'')
            then Some (get_prop (flds ''q11_phoneNumber'') ''full'')
            else map_option JStr (js_to_string pf (flds ''q11_phoneNumber'')))
         else map_option JStr (js_to_string pf (flds ''q11_phoneNumber'')))
      else if truthy pf (flds ''q11_phoneNumber[full]'') then
        Some (flds ''q11_phoneNumber[full]'')
      else if truthy pf (flds ''phone'') then Some (flds ''phone'')
      else Some (JStr []))"

text \<open>Lines 358 to 370.\<close>

definition parse_church :: "'n platform \<Rightarrow> (string \<Rightarrow> 'n jsval) \<Rightarrow> 'n jsval" where
  "parse_church pf flds =
     (if truthy pf (flds ''q10_church'') \<or> truthy pf (flds ''q10_youthGroup'') then
        js_or pf (flds ''q10_church'') (flds ''q10_youthGroup'')
      else if truthy pf (flds ''q12_ltstronggtwhichYouth'') then
        flds ''q12_ltstronggtwhichYouth''
      else if truthy pf (flds ''q9_youthGroup'') then flds ''q9_youthGroup''
      else if truthy pf (flds ''q12_textbox'') then flds ''q12_textbox''
      else if truthy pf (flds ''church'') \<or> truthy pf (flds ''youthGroup'') then
        js_or pf (flds ''church'') (flds ''youthGroup'')
      else JStr [])"

text \<open>Line 270 and lines 373 to 385: the invoice value before cleaning.\<close>

definition raw_invoice :: "'n platform \<Rightarrow> (string \<Rightarrow> 'n jsval) \<Rightarrow> 'n jsval" where
  "raw_invoice pf flds =
     (if truthy pf (flds ''q38_invoiceId'') \<or> truthy pf (flds ''38'') then
        js_or pf (flds ''q38_invoiceId'') (flds ''38'')
      else if truthy pf (flds ''q11_invoiceId'') then flds ''q11_invoiceId''
      else if truthy pf (flds ''q7_invoiceId'') then flds ''q7_invoiceId''
      else if truthy pf (flds ''q11_autoincrement'') then flds ''q11_autoincrement''
      else if truthy pf (flds ''invoiceId'') then flds ''invoiceId''
      else JStr (''INV-'' @ show_nat (Date_now pf)))"

text \<open>Lines 387 to 399 on a string: three tests, one after the other.\<close>

definition clean_string :: "string \<Rightarrow> string" where
  "clean_string s =
     (let s1 = (if prefix ''# INV-'' s then drop 6 s else s);
          s2 = (if prefix ''# '' s1 then drop 2 s1 else s1)
      in if prefix ''INV-'' s2 then drop 4 s2 else s2)"

text \<open>Each test is guarded by \<^verbatim>\<open>typeof invoiceNo === 'string'\<close>.\<close>

definition clean_invoice :: "'n jsval \<Rightarrow> 'n jsval" where
  "clean_invoice v = (case v of JStr s \<Rightarrow> JStr (clean_string s) | _ \<Rightarrow> v)"

text \<open>\<^verbatim>\<open>parseFormFields\<close>. \<open>None\<close> is a \<^verbatim>\<open>TypeError\<close> thrown by one of the string
  conversions of the name or the phone.\<close>

definition parseFormFields ::
  "'n platform \<Rightarrow> (string \<Rightarrow> 'n jsval) \<Rightarrow> 'n ParsedSubmission option" where
  "parseFormFields pf flds =
     (case parse_name pf flds of
        None \<Rightarrow> None
      | Some nm \<Rightarrow>
         (case parse_phone pf flds of
            None \<Rightarrow> None
          | Some ph \<Rightarrow>
              Some \<lparr>formId = parse_formId pf flds,
                    email = parse_email pf flds,
                    name = nm,
                    invoiceNo = clean_invoice (raw_invoice pf flds),
                    phone = ph,
                    church = parse_church pf flds,
                    quantity = pd_quantity (parse_product pf flds),
                    productDetails = pd_productDetails (parse_product pf flds),
                    totalAmount = pd_totalAmount (parse_product pf flds)\<rparr>))"

section \<open>The submission normalizer\<close>

text \<open>
  The object \<^verbatim>\<open>formFields\<close> of nested mode: its own properties and its prototype. An
  assignment to the key \<^verbatim>\<open>__proto__\<close> goes to the setter inherited from
  \<^verbatim>\<open>Object.prototype\<close>: an object or \<^verbatim>\<open>null\<close> becomes the prototype, any other value is
  ignored; once the prototype is \<^verbatim>\<open>null\<close> the setter is gone and the key is an own property
  like any other.
\<close>

datatype 'n proto = ObjectPrototype | NullPrototype | ValuePrototype "'n jsval"

record 'n formFields =
  own :: "(string \<times> 'n jsval) list"
  proto :: "'n proto"

definition set_field :: "'n formFields \<Rightarrow> string \<times> 'n jsval \<Rightarrow> 'n formFields" where
  "set_field ff kv =
     (if fst kv = ''__proto__'' \<and> proto ff \<noteq> NullPrototype then
        (if is_object (snd kv) then ff\<lparr>proto := ValuePrototype (snd kv)\<rparr>
         else if snd kv = JNull then ff\<lparr>proto := NullPrototype\<rparr>
         else ff)
      else ff\<lparr>own := AList.update (fst kv) (snd kv) (own ff)\<rparr>)"

text \<open>A property read on \<^verbatim>\<open>formFields\<close>: own properties first, then the prototype.\<close>

definition fields_get :: "'n formFields \<Rightarrow> string \<Rightarrow> 'n jsval" where
  "fields_get ff k =
     (case map_of (own ff) k of
        Some v \<Rightarrow> v
      | None \<Rightarrow> (case proto ff of ValuePrototype p \<Rightarrow> get_prop p k | _ \<Rightarrow> JUndef))"

text \<open>\<^verbatim>\<open>Object.entries\<close>; \<open>None\<close> is the \<^verbatim>\<open>TypeError\<close> on \<^verbatim>\<open>null\<close>.\<close>

fun object_entries :: "'n jsval \<Rightarrow> (string \<times> 'n jsval) list option" where
  "object_entries JUndef = None"
| "object_entries JNull = None"
| "object_entries (JObj kvs) = Some kvs"
| "object_entries (JArr xs) = Some (map (\<lambda>i. (show_nat i, xs ! i)) [0..<length xs])"
| "object_entries (JStr s) = Some (map (\<lambda>i. (show_nat i, JStr [s ! i])) [0..<length s])"
| "object_entries v = Some []"

text \<open>Lines 141 to 156: the two injected keys, then every entry of the parsed
  \<^verbatim>\<open>rawRequest\<close> assigned in turn (both branches of the loop's test do the same).\<close>

definition build_fields :: "'n jsval \<Rightarrow> (string \<times> 'n jsval) list \<Rightarrow> 'n formFields" where
  "build_fields formId0 entries =
     foldl set_field \<lparr>own = [(''formID'', formId0), (''formId'', formId0)], proto = ObjectPrototype\<rparr>
       entries"

text \<open>The inner \<^verbatim>\<open>try\<close> of \<^verbatim>\<open>parseWebhook\<close> (lines 137 to 163); \<open>None\<close> is an exception,
  which the \<^verbatim>\<open>catch\<close> logs before the legacy parsing is tried.\<close>

definition nested_parse ::
  "'n platform \<Rightarrow> 'n jsval \<Rightarrow> 'n jsval \<Rightarrow> 'n ParsedSubmission option" where
  "nested_parse pf formId0 rawRequest =
     (case js_to_string pf rawRequest of
        None \<Rightarrow> None
      | Some txt \<Rightarrow>
         (case JSON_parse pf txt of
            None \<Rightarrow> None
          | Some rawData \<Rightarrow>
             (case object_entries rawData of
                None \<Rightarrow> None
              | Some entries \<Rightarrow> parseFormFields pf (fields_get (build_fields formId0 entries)))))"

text \<open>\<^verbatim>\<open>parseWebhook\<close>. \<open>None\<close> is the exception it rethrows: \<^verbatim>\<open>Object.keys\<close> of a payload
  that is \<^verbatim>\<open>undefined\<close> or \<^verbatim>\<open>null\<close>, or a \<^verbatim>\<open>TypeError\<close> of the legacy parsing.\<close>

definition parseWebhook :: "'n platform \<Rightarrow> 'n jsval \<Rightarrow> 'n ParsedSubmission option" where
  "parseWebhook pf payload =
     (if is_nullish payload then None
      else
        (let formId0 = parse_formId pf (get_prop payload) in
         case (if truthy pf (get_prop payload ''rawRequest'')
               then nested_parse pf formId0 (get_prop payload ''rawRequest'')
               else None)
         of
           Some ticketData \<Rightarrow> Some ticketData
         | None \<Rightarrow> parseFormFields pf (get_prop payload)))"

section \<open>The document store and the collaborators\<close>

text \<open>
  The three collections, as lists in insertion order. The models define the schemas; the
  ticket's fields are the ones the controllers write and read. A timestamp is a number of
  milliseconds; a document identifier is the text of its \<^verbatim>\<open>ObjectId\<close>.
\<close>

record event_doc =
  ev_id :: string
  ev_formId :: string
  ev_title :: string
  ev_startTime :: nat
  ev_endTime :: nat

record user_doc =
  usr_id :: string
  usr_email :: string
  usr_passwordHash :: string

record 'n ticket =
  t_id :: string
  t_invoiceNo :: string
  t_user :: string
  t_event :: string
  t_name :: string
  t_email :: string
  t_phone :: "string option"
  t_church :: "string option"
  t_youthMinistry :: "string option"
  t_quantity :: 'n
  t_productDetails :: "string option"
  t_totalAmount :: "'n option"
  t_checkedIn :: bool
  t_checkInTime :: "nat option"

text \<open>The value bound to \<^verbatim>\<open>submissionData\<close> in \<^verbatim>\<open>webhookHandler\<close>, typed as the interface
  \<^verbatim>\<open>ParsedSubmission\<close> declares it; \<open>None\<close> is an absent optional field.\<close>

record 'n submission =
  s_email :: string
  s_name :: string
  s_invoiceNo :: string
  s_formId :: string
  s_phone :: "string option"
  s_church :: "string option"
  s_youthMinistry :: "string option"
  s_eventName :: "string option"
  s_eventDate :: "string option"
  s_quantity :: "'n option"
  s_productDetails :: "string option"
  s_totalAmount :: "'n option"

text \<open>The argument of \<^verbatim>\<open>emailService.sendTicketEmail\<close>.\<close>

record email_args =
  m_to :: string
  m_name :: string
  m_eventTitle :: string
  m_eventDate :: string
  m_invoiceNo :: string
  m_qrDataUrl :: string

text \<open>A filter of \<^verbatim>\<open>Ticket.findOne\<close>: the keys the controllers put in the query object.\<close>

record ticket_filter =
  by_id :: "string option"
  by_invoiceNo :: "string option"
  by_event :: "string option"

text \<open>
  The calls the controllers make to the document layer: \<^verbatim>\<open>findOne\<close> on each collection,
  \<^verbatim>\<open>save\<close> of a document, and the \<^verbatim>\<open>find\<close> of the search with its event and its optional
  pattern.
\<close>

datatype 'n store_call =
    EventFindOne string
  | EventSave event_doc
  | UserFindOne string
  | UserSave user_doc
  | TicketFindOne ticket_filter
  | TicketFind string "string option"
  | TicketSave "'n ticket"

text \<open>
  The store, with what the collaborators were asked: every call to the document layer, every
  call of \<^verbatim>\<open>generateQrCode\<close> and every call of \<^verbatim>\<open>sendTicketEmail\<close> is appended to its log.
\<close>

record 'n store =
  events :: "event_doc list"
  users :: "user_doc list"
  tickets :: "'n ticket list"
  next_id :: nat
  store_calls :: "'n store_call list"
  qr_log :: "string list"
  mail_log :: "email_args list"

text \<open>
  What a request takes from outside the controllers: the clock, the generator of document
  identifiers, \<^verbatim>\<open>Types.ObjectId.isValid\<close>, the two date formats, the QR generator (\<open>None\<close>: it
  rejects), the email sender (\<open>False\<close>: it rejects), what \<^verbatim>\<open>require('bcrypt')\<close> and \<^verbatim>\<open>bcrypt.hash\<close>
  make of the random temporary password (\<open>None\<close>: the module is not installed and \<^verbatim>\<open>require\<close>
  throws, or the promise of the hash rejects; \<^verbatim>\<open>package.json\<close> lists \<^verbatim>\<open>bcryptjs\<close> among the
  dependencies, not \<^verbatim>\<open>bcrypt\<close>), the compilation of a regular expression with flag \<^verbatim>\<open>i\<close>
  (\<open>None\<close>: \<^verbatim>\<open>SyntaxError\<close>), asked only about patterns that are not plain text, and whether the
  document layer carries out a call: when it does not, the awaited promise rejects (the schema
  cannot cast or validate a value, an index refuses a duplicate, the connection is lost). Every
  exception and every rejection lands in the controller's \<^verbatim>\<open>catch\<close>, which answers 500.
\<close>

record 'n env =
  now :: nat
  new_id :: "nat \<Rightarrow> string"
  isValid :: "string \<Rightarrow> bool"
  toLocaleString :: "nat \<Rightarrow> string"
  toLocaleDateString :: "nat \<Rightarrow> string"
  generateQrCode :: "string \<Rightarrow> string option"
  sendTicketEmail :: "email_args \<Rightarrow> bool"
  hashedPassword :: "string option"
  regex_compile :: "string \<Rightarrow> (string \<Rightarrow> bool) option"
  accepts :: "'n store_call \<Rightarrow> bool"

text \<open>The JSON bodies the controllers send.\<close>

record 'n ticket_view =
  v_id :: string
  v_invoiceNo :: string
  v_name :: string
  v_email :: string
  v_quantity :: 'n
  v_productDetails :: "string option"
  v_totalAmount :: "'n option"
  v_checkedIn :: bool
  v_checkInTime :: "nat option"

definition view :: "'n ticket \<Rightarrow> 'n ticket_view" where
  "view t =
     \<lparr>v_id = t_id t, v_invoiceNo = t_invoiceNo t, v_name = t_name t, v_email = t_email t,
      v_quantity = t_quantity t, v_productDetails = t_productDetails t,
      v_totalAmount = t_totalAmount t, v_checkedIn = t_checkedIn t,
      v_checkInTime = t_checkInTime t\<rparr>"

text \<open>
  \<open>Failure c m\<close> is \<^verbatim>\<open>res.status(c).json({success: false, message: m})\<close>; \<open>MissingFields\<close> is
  the 400 of the webhook, which also carries what was received. The others are the 200
  answers: of the webhook (the ticket's identifier), of the search (count and data), of the
  check-in (message and data) and of the lookup (the data of the check-in with the phone, the
  church and the event).
\<close>

datatype 'n response =
    Failure nat string
  | MissingFields string string string
  | Processed string
  | Found nat "'n ticket_view list"
  | CheckedIn string "'n ticket_view"
  | TicketFound "'n ticket_view" "string option" "string option" string

text \<open>Truthiness of a request field that is a string or absent.\<close>

definition given :: "string option \<Rightarrow> bool" where
  "given x = (case x of Some s \<Rightarrow> s \<noteq> [] | None \<Rightarrow> False)"

text \<open>The field when it is truthy; \<^verbatim>\<open>x || d\<close>.\<close>

definition provided :: "string option \<Rightarrow> string option" where
  "provided x = (if given x then x else None)"

definition or_else :: "string option \<Rightarrow> string \<Rightarrow> string" where
  "or_else x d = (case provided x of Some s \<Rightarrow> s | None \<Rightarrow> d)"

text \<open>A call to the document layer: it is logged, and it is carried out or it rejects.\<close>

definition call :: "'n env \<Rightarrow> 'n store \<Rightarrow> 'n store_call \<Rightarrow> bool \<times> 'n store" where
  "call e st c = (accepts e c, st\<lparr>store_calls := store_calls st @ [c]\<rparr>)"

definition matches :: "ticket_filter \<Rightarrow> 'n ticket \<Rightarrow> bool" where
  "matches f t =
     ((case by_id f of Some i \<Rightarrow> t_id t = i | None \<Rightarrow> True)
      \<and> (case by_invoiceNo f of Some i \<Rightarrow> t_invoiceNo t = i | None \<Rightarrow> True)
      \<and> (case by_event f of Some ev \<Rightarrow> t_event t = ev | None \<Rightarrow> True))"

text \<open>\<^verbatim>\<open>Ticket.findOne(query)\<close>: the first matching document or nothing; \<open>None\<close> when the
  call rejects.\<close>

definition findOne ::
  "'n env \<Rightarrow> 'n store \<Rightarrow> ticket_filter \<Rightarrow> 'n ticket option option \<times> 'n store" where
  "findOne e st f =
     (let (ok, st1) = call e st (TicketFindOne f)
      in (if ok then Some (find (matches f) (tickets st1)) else None, st1))"

text \<open>\<^verbatim>\<open>save()\<close> of a loaded document: an update of the document with that \<^verbatim>\<open>_id\<close>.\<close>

fun update_first :: "('a \<Rightarrow> bool) \<Rightarrow> ('a \<Rightarrow> 'a) \<Rightarrow> 'a list \<Rightarrow> 'a list" where
  "update_first P f [] = []"
| "update_first P f (x # xs) = (if P x then f x # xs else x # update_first P f xs)"

section \<open>The webhook handler\<close>

text \<open>Lines 142 to 152: find or create the event. A new document takes the next identifier.
  \<open>None\<close> when a call rejects.\<close>

definition resolve_event ::
  "'n env \<Rightarrow> 'n store \<Rightarrow> 'n submission \<Rightarrow> event_doc option \<times> 'n store" where
  "resolve_event e st sub =
     (let (ok, st1) = call e st (EventFindOne (s_formId sub)) in
      if \<not> ok then (None, st1)
      else
        (case find (\<lambda>ev. ev_formId ev = s_formId sub) (events st1) of
           Some ev \<Rightarrow> (Some ev, st1)
         | None \<Rightarrow>
             (let ev = \<lparr>ev_id = new_id e (next_id st1),
                        ev_formId = s_formId sub,
                        ev_title = or_else (s_eventName sub) ''Youth Alive Event'',
                        ev_startTime = now e,
                        ev_endTime = now e + 7 * 24 * 60 * 60 * 1000\<rparr>;
                  (saved, st2) = call e (st1\<lparr>next_id := Suc (next_id st1)\<rparr>) (EventSave ev)
              in if saved then (Some ev, st2\<lparr>events := events st2 @ [ev]\<rparr>)
                 else (None, st2))))"

text \<open>Lines 153 to 169: find or create the user. A user that is not stored needs the hash
  of a temporary password (lines 156 to 159) before the document is made and saved.\<close>

definition resolve_user ::
  "'n env \<Rightarrow> 'n store \<Rightarrow> 'n submission \<Rightarrow> user_doc option \<times> 'n store" where
  "resolve_user e st sub =
     (let (ok, st1) = call e st (UserFindOne (s_email sub)) in
      if \<not> ok then (None, st1)
      else
        (case find (\<lambda>u. usr_email u = s_email sub) (users st1) of
           Some u \<Rightarrow> (Some u, st1)
         | None \<Rightarrow>
             (case hashedPassword e of
                None \<Rightarrow> (None, st1)
              | Some hashed \<Rightarrow>
                  (let u = \<lparr>usr_id = new_id e (next_id st1), usr_email = s_email sub,
                            usr_passwordHash = hashed\<rparr>;
                       (saved, st2) = call e (st1\<lparr>next_id := Suc (next_id st1)\<rparr>) (UserSave u)
                   in if saved then (Some u, st2\<lparr>users := users st2 @ [u]\<rparr>)
                      else (None, st2)))))"

text \<open>Lines 172 to 184: the new ticket, its fields copied from the submission.\<close>

text \<open>Modelled from the spec: the schema of the ticket model, which is not among the sources,
  gives the two check-in fields their defaults; the specification's check-in state machine
  starts in \<^verbatim>\<open>NOT_CHECKED_IN\<close>, with no check-in time.\<close>

definition new_ticket ::
  "'n platform \<Rightarrow> 'n env \<Rightarrow> 'n store \<Rightarrow> 'n submission \<Rightarrow> user_doc \<Rightarrow> event_doc \<Rightarrow> 'n ticket"
  where
  "new_ticket pf e st sub u ev =
     \<lparr>t_id = new_id e (next_id st),
      t_invoiceNo = s_invoiceNo sub,
      t_user = usr_id u,
      t_event = ev_id ev,
      t_name = s_name sub,
      t_email = s_email sub,
      t_phone = s_phone sub,
      t_church = s_church sub,
      t_youthMinistry = s_youthMinistry sub,
      t_quantity = (case s_quantity sub of
                      Some q \<Rightarrow> if num_truthy pf q then q else num_nat pf 1
                    | None \<Rightarrow> num_nat pf 1),
      t_productDetails = s_productDetails sub,
      t_totalAmount = s_totalAmount sub,
      t_checkedIn = False,
      t_checkInTime = None\<rparr>"

text \<open>Lines 185 to 195, after the ticket is saved: the QR code, then the email. A rejection of
  either lands in the handler's \<^verbatim>\<open>catch\<close>, which answers 500.\<close>

definition notify ::
  "'n env \<Rightarrow> 'n store \<Rightarrow> 'n submission \<Rightarrow> event_doc \<Rightarrow> 'n ticket \<Rightarrow> 'n response \<times> 'n store"
  where
  "notify e st sub ev t =
     (let st1 = st\<lparr>qr_log := qr_log st @ [s_invoiceNo sub]\<rparr> in
      case generateQrCode e (s_invoiceNo sub) of
        None \<Rightarrow> (Failure 500 ''Error processing webhook'', st1)
      | Some qrDataUrl \<Rightarrow>
          (let m = \<lparr>m_to = s_email sub, m_name = s_name sub, m_eventTitle = ev_title ev,
                    m_eventDate = or_else (s_eventDate sub)
                                    (toLocaleDateString e (ev_startTime ev)),
                    m_invoiceNo = s_invoiceNo sub, m_qrDataUrl = qrDataUrl\<rparr>;
               st2 = st1\<lparr>mail_log := mail_log st1 @ [m]\<rparr>
           in if sendTicketEmail e m then (Processed (t_id t), st2)
              else (Failure 500 ''Error processing webhook'', st2)))"

text \<open>Lines 170 to 196: the ticket of the invoice number is looked up, and created when there
  is none.\<close>

definition resolve_ticket ::
  "'n platform \<Rightarrow> 'n env \<Rightarrow> 'n store \<Rightarrow> 'n submission \<Rightarrow> user_doc \<Rightarrow> event_doc
   \<Rightarrow> 'n response \<times> 'n store" where
  "resolve_ticket pf e st sub u ev =
     (case findOne e st \<lparr>by_id = None, by_invoiceNo = Some (s_invoiceNo sub), by_event = None\<rparr> of
        (None, st1) \<Rightarrow> (Failure 500 ''Error processing webhook'', st1)
      | (Some (Some t), st1) \<Rightarrow> (Processed (t_id t), st1)
      | (Some None, st1) \<Rightarrow>
          (let t = new_ticket pf e st1 sub u ev;
               (saved, st2) = call e (st1\<lparr>next_id := Suc (next_id st1)\<rparr>) (TicketSave t)
           in if saved then notify e (st2\<lparr>tickets := tickets st2 @ [t]\<rparr>) sub ev t
              else (Failure 500 ''Error processing webhook'', st2)))"

text \<open>\<^verbatim>\<open>webhookHandler\<close> from line 123 on, given the parsed submission.\<close>

definition webhookHandler ::
  "'n platform \<Rightarrow> 'n env \<Rightarrow> 'n store \<Rightarrow> 'n submission \<Rightarrow> 'n response \<times> 'n store" where
  "webhookHandler pf e st sub =
     (if s_email sub = [] \<or> s_formId sub = [] \<or> s_invoiceNo sub = [] then
        (MissingFields (s_email sub) (s_formId sub) (s_invoiceNo sub), st)
      else
        (case resolve_event e st sub of
           (None, st1) \<Rightarrow> (Failure 500 ''Error processing webhook'', st1)
         | (Some ev, st1) \<Rightarrow>
            (case resolve_user e st1 sub of
               (None, st2) \<Rightarrow> (Failure 500 ''Error processing webhook'', st2)
             | (Some u, st2) \<Rightarrow> resolve_ticket pf e st2 sub u ev)))"

section \<open>Search, check-in and lookup\<close>

text \<open>The query string of the search and the bodies of the two POST requests: each field is a
  string or absent.\<close>

record search_req =
  q_eventId :: "string option"
  q_query :: "string option"

record checkin_req =
  c_ticketId :: "string option"
  c_invoiceNo :: "string option"
  c_eventId :: "string option"

record lookup_req =
  l_invoiceNo :: "string option"
  l_eventId :: "string option"

definition lower_ascii :: "char \<Rightarrow> char" where
  "lower_ascii c =
     (case map_of (zip ''ABCDEFGHIJKLMNOPQRSTUVWXYZ'' ''abcdefghijklmnopqrstuvwxyz'') c of
        Some l \<Rightarrow> l
      | None \<Rightarrow> c)"

text \<open>Characters that stand for themselves in a regular expression.\<close>

definition plain_chars :: string where
  "plain_chars =
     ''ABCDEFGHIJKLMNOPQRSTUVWXYZabcdefghijklmnopqrstuvwxyz0123456789 @_''"

text \<open>\<open>s\<close> contains \<open>q\<close>, letters compared without case.\<close>

definition ci_contains :: "string \<Rightarrow> string \<Rightarrow> bool" where
  "ci_contains q s = sublist (map lower_ascii q) (map lower_ascii s)"

text \<open>
  \<^verbatim>\<open>new RegExp(String(query), 'i')\<close> as a test on a field. The query is the pattern, not
  escaped. A pattern of plain characters matches where the field contains it; what any other
  pattern matches is the regular-expression engine's business.
\<close>

definition regex_of :: "'n env \<Rightarrow> string \<Rightarrow> (string \<Rightarrow> bool) option" where
  "regex_of e q =
     (if list_all (\<lambda>c. c \<in> set plain_chars) q then Some (ci_contains q) else regex_compile e q)"

text \<open>Lines 247 to 261: the criteria, and \<^verbatim>\<open>find\<close>, \<^verbatim>\<open>sort({name: 1})\<close>, \<^verbatim>\<open>limit(50)\<close>.
  \<open>None\<close> is an exception: the \<^verbatim>\<open>SyntaxError\<close> of the pattern, thrown before the collection
  is asked, or the rejection of the call.\<close>

definition search_tickets ::
  "'n env \<Rightarrow> 'n store \<Rightarrow> string \<Rightarrow> string option \<Rightarrow> 'n ticket list option \<times> 'n store" where
  "search_tickets e st eventId query =
     (case (case provided query of
              Some q \<Rightarrow> map_option Some (regex_of e q)
            | None \<Rightarrow> Some None) of
        None \<Rightarrow> (None, st)
      | Some test \<Rightarrow>
          (let (ok, st1) = call e st (TicketFind eventId (provided query))
           in (if ok then
                 Some (take 50 (sort_key t_name
                         (filter (\<lambda>t. t_event t = eventId
                                      \<and> (case test of None \<Rightarrow> True
                                           | Some r \<Rightarrow> r (t_name t) \<or> r (t_email t)))
                            (tickets st1))))
               else None, st1)))"

definition searchGuests :: "'n env \<Rightarrow> 'n store \<Rightarrow> search_req \<Rightarrow> 'n response \<times> 'n store" where
  "searchGuests e st rq =
     (case provided (q_eventId rq) of
        None \<Rightarrow> (Failure 400 ''Event ID is required'', st)
      | Some eventId \<Rightarrow>
          (case search_tickets e st eventId (q_query rq) of
             (None, st1) \<Rightarrow> (Failure 500 ''Error searching guests'', st1)
           | (Some ts, st1) \<Rightarrow> (Found (length ts) (map view ts), st1)))"

text \<open>
  \<^verbatim>\<open>checkIn\<close> runs in two parts, with an \<^verbatim>\<open>await\<close> between them. The first (lines 293 to
  325) validates the body and asks the store for the ticket: it ends with an answer (\<open>Inl\<close>)
  or with the result of \<^verbatim>\<open>findOne\<close> (\<open>Inr\<close>), a copy of the document or nothing.
\<close>

definition checkIn_find ::
  "'n env \<Rightarrow> 'n store \<Rightarrow> checkin_req \<Rightarrow> ('n response + 'n ticket option) \<times> 'n store" where
  "checkIn_find e st rq =
     (if \<not> given (c_ticketId rq) \<and> \<not> given (c_invoiceNo rq) then
        (Inl (Failure 400 ''Ticket ID or invoice number is required''), st)
      else
        (case provided (c_ticketId rq) of
           Some ticketId \<Rightarrow>
             if \<not> isValid e ticketId then
               (Inl (Failure 400 ''Invalid ticket ID format''), st)
             else
               (case findOne e st \<lparr>by_id = Some ticketId, by_invoiceNo = None,
                                    by_event = provided (c_eventId rq)\<rparr> of
                  (None, st1) \<Rightarrow> (Inl (Failure 500 ''Error checking in guest''), st1)
                | (Some found, st1) \<Rightarrow> (Inr found, st1))
         | None \<Rightarrow>
             (case findOne e st \<lparr>by_id = None, by_invoiceNo = c_invoiceNo rq,
                                  by_event = provided (c_eventId rq)\<rparr> of
                (None, st1) \<Rightarrow> (Inl (Failure 500 ''Error checking in guest''), st1)
              | (Some found, st1) \<Rightarrow> (Inr found, st1))))"

text \<open>
  The second part (lines 327 to 363) works on the copy it was given: the two guards, then the
  two assignments and \<^verbatim>\<open>save()\<close>, which writes the two modified fields to the stored document
  with the copy's \<^verbatim>\<open>_id\<close>. The guard reads the copy, not the store.
\<close>

definition checkIn_finish ::
  "'n env \<Rightarrow> 'n store \<Rightarrow> checkin_req \<Rightarrow> 'n ticket option \<Rightarrow> 'n response \<times> 'n store" where
  "checkIn_finish e st rq found =
     (case found of
        None \<Rightarrow>
          (Failure 404
             (if given (c_eventId rq)
              then ''Ticket not found for this event. This QR code may be for a different event.''
              else ''Ticket not found''), st)
      | Some ticket \<Rightarrow>
          if t_checkedIn ticket then
            (Failure 400
               (t_name ticket @ '' has already been checked in at ''
                  @ (case t_checkInTime ticket of
                       None \<Rightarrow> ''undefined''
                     | Some d \<Rightarrow> toLocaleString e d)), st)
          else
            (let ticket1 = ticket\<lparr>t_checkedIn := True, t_checkInTime := Some (now e)\<rparr>;
                 (saved, st1) = call e st (TicketSave ticket1)
             in if saved then
                  (CheckedIn (''Welcome '' @ t_name ticket @ ''! Check-in successful.'')
                     (view ticket1),
                   st1\<lparr>tickets :=
                         update_first (\<lambda>x. t_id x = t_id ticket)
                           (\<lambda>x. x\<lparr>t_checkedIn := True, t_checkInTime := Some (now e)\<rparr>)
                           (tickets st1)\<rparr>)
                else (Failure 500 ''Error checking in guest'', st1)))"

text \<open>\<^verbatim>\<open>checkIn\<close> when nothing else runs between its two parts.\<close>

definition checkIn :: "'n env \<Rightarrow> 'n store \<Rightarrow> checkin_req \<Rightarrow> 'n response \<times> 'n store" where
  "checkIn e st rq =
     (case checkIn_find e st rq of
        (Inl answer, st1) \<Rightarrow> (answer, st1)
      | (Inr found, st1) \<Rightarrow> checkIn_finish e st1 rq found)"

definition lookupTicket :: "'n env \<Rightarrow> 'n store \<Rightarrow> lookup_req \<Rightarrow> 'n response \<times> 'n store" where
  "lookupTicket e st rq =
     (if \<not> given (l_invoiceNo rq) then (Failure 400 ''Invoice number is required'', st)
      else
        (case findOne e st \<lparr>by_id = None, by_invoiceNo = l_invoiceNo rq,
                             by_event = provided (l_eventId rq)\<rparr> of
           (None, st1) \<Rightarrow> (Failure 500 ''Error looking up ticket'', st1)
         | (Some None, st1) \<Rightarrow>
             (Failure 404
                (if given (l_eventId rq)
                 then ''Ticket not found for this event. Please verify the QR code and event.''
                 else ''Ticket not found''), st1)
         | (Some (Some t), st1) \<Rightarrow>
             (TicketFound (view t) (t_phone t) (t_church t) (t_event t), st1)))"

text \<open>The requests of the core, and a run of them, each with the surroundings it met.\<close>

datatype 'n request =
    Webhook "'n submission"
  | Search search_req
  | CheckIn checkin_req
  | Lookup lookup_req

fun handle ::
  "'n platform \<Rightarrow> 'n env \<Rightarrow> 'n store \<Rightarrow> 'n request \<Rightarrow> 'n response \<times> 'n store" where
  "handle pf e st (Webhook sub) = webhookHandler pf e st sub"
| "handle pf e st (Search rq) = searchGuests e st rq"
| "handle pf e st (CheckIn rq) = checkIn e st rq"
| "handle pf e st (Lookup rq) = lookupTicket e st rq"

fun run :: "'n platform \<Rightarrow> 'n store \<Rightarrow> ('n env \<times> 'n request) list \<Rightarrow> 'n store" where
  "run pf st [] = st"
| "run pf st ((e, rq) # rest) = run pf (snd (handle pf e st rq)) rest"

section \<open>What the specification says, and the inputs of the examples\<close>






definition invoice_aliases :: "string list" where
  "invoice_aliases =
     [''q38_invoiceId'', ''38'', ''q11_invoiceId'', ''q7_invoiceId'', ''q11_autoincrement'',
      ''invoiceId'']"


text \<open>The embedded mapping of nested mode as \<^verbatim>\<open>parseFormFields\<close> reads it: the outer form
  identifier stands in for \<^verbatim>\<open>formID\<close> and for \<^verbatim>\<open>formId\<close> where the mapping lacks the key.\<close>

definition with_outer :: "'n jsval \<Rightarrow> (string \<times> 'n jsval) list \<Rightarrow> string \<Rightarrow> 'n jsval" where
  "with_outer outer kvs k =
     (case map_of kvs k of
        Some v \<Rightarrow> v
      | None \<Rightarrow> if k = ''formID'' \<or> k = ''formId'' then outer else JUndef)"

text \<open>One test of the cleaning: the prefix is removed when the value begins with it.\<close>

definition strip :: "string \<Rightarrow> string \<Rightarrow> string" where
  "strip p s = (if prefix p s then drop (length p) s else s)"

text \<open>The specification's prefix stripping: the three prefixes tried in order, at most one
  removed.\<close>

definition strip_one :: "string \<Rightarrow> string" where
  "strip_one s =
     (if prefix ''# INV-'' s then drop 6 s
      else if prefix ''# '' s then drop 2 s
      else if prefix ''INV-'' s then drop 4 s
      else s)"


text \<open>The three required fields are non-empty: the handler's validation passes.\<close>

definition required_present :: "'n submission \<Rightarrow> bool" where
  "required_present sub = (s_email sub \<noteq> [] \<and> s_formId sub \<noteq> [] \<and> s_invoiceNo sub \<noteq> [])"




text \<open>What one pass of the webhook handler can do to the store: leave the tickets and the two
  logs as they were, or create the one ticket of an invoice number that had none, ask for its
  QR code and send at most one email.\<close>

definition untouched :: "'n store \<Rightarrow> 'n store \<Rightarrow> bool" where
  "untouched st st1 =
     (tickets st1 = tickets st \<and> qr_log st1 = qr_log st \<and> mail_log st1 = mail_log st)"

definition created :: "string \<Rightarrow> 'n response \<Rightarrow> 'n store \<Rightarrow> 'n store \<Rightarrow> bool" where
  "created ino a st st1 =
     (find (\<lambda>t. t_invoiceNo t = ino) (tickets st) = None
      \<and> (\<exists>t. tickets st1 = tickets st @ [t] \<and> t_invoiceNo t = ino \<and> \<not> t_checkedIn t
              \<and> (\<forall>i. a = Processed i \<longrightarrow> i = t_id t))
      \<and> qr_log st1 = qr_log st @ [ino]
      \<and> length (mail_log st1) \<le> length (mail_log st) + 1)"

text \<open>Between two states of the ticket collection no document is lost or moved, and none
  that was checked in is not any more.\<close>

definition never_reverts :: "'n ticket list \<Rightarrow> 'n ticket list \<Rightarrow> bool" where
  "never_reverts old new =
     (length old \<le> length new
      \<and> (\<forall>i<length old. t_id (new ! i) = t_id (old ! i)
                          \<and> (t_checkedIn (old ! i) \<longrightarrow> t_checkedIn (new ! i))))"

text \<open>Every ticket that is checked in has its check-in time.\<close>

definition well_timed :: "'n ticket list \<Rightarrow> bool" where
  "well_timed ts = (\<forall>t\<in>set ts. t_checkedIn t \<longrightarrow> t_checkInTime t \<noteq> None)"


text \<open>
  The runtime of the examples. Its numbers are the integers and \<^verbatim>\<open>NaN\<close> (\<open>None\<close>); the
  functions that read text are tables of their values at the texts the examples use.
\<close>

definition example_JSON :: "(string \<times> int option jsval) list" where
  \<open>example_JSON =
     [(''{"formID":"B"}'', JObj [(''formID'', JStr ''B'')]),
      (''{"form_id":"C","formId":"D"}'', JObj [(''form_id'', JStr ''C''), (''formId'', JStr ''D'')]),
      (''{"q5_email":"jane@example.org"}'', JObj [(''q5_email'', JStr ''jane@example.org'')]),
      (''{"product":["General Admission (Amount: 5.00 AUD, Quantity: 15)"],"total":"75.00"}'',
         JObj [(''product'', JArr [JStr ''General Admission (Amount: 5.00 AUD, Quantity: 15)'']),
               (''total'', JStr ''75.00'')])]\<close>

definition example_platform :: "int option platform" where
  "example_platform =
     \<lparr>JSON_parse = map_of example_JSON,
      num_truthy = (\<lambda>n. n \<noteq> None \<and> n \<noteq> Some 0),
      num_show = (\<lambda>n. case n of None \<Rightarrow> ''NaN''
                    | Some i \<Rightarrow> if i < 0 then CHR ''-'' # show_nat (nat (- i)) else show_nat (nat i)),
      parseInt10 = (\<lambda>s. case map_of [(''15'', Some 15)] s of Some v \<Rightarrow> v | None \<Rightarrow> None),
      parseFloat = (\<lambda>s. case map_of [(''75.00'', Some 75)] s of Some v \<Rightarrow> v | None \<Rightarrow> None),
      str_num = (\<lambda>s. None),
      num_times = (\<lambda>a b. case a of None \<Rightarrow> None | Some x \<Rightarrow> map_option (\<lambda>y. x * y) b),
      num_nat = (\<lambda>n. Some (int n)),
      num_nan = None,
      Date_now = 1700000000000\<rparr>"

text \<open>A regular-expression engine for the examples: it knows the patterns made of plain
  characters and the wildcard \<^verbatim>\<open>.\<close>, which matches any character but a line break.\<close>

fun dot_here :: "string \<Rightarrow> string \<Rightarrow> bool" where
  "dot_here [] s = True"
| "dot_here (p # ps) [] = False"
| "dot_here (p # ps) (c # cs) =
     ((if p = CHR ''.'' then c \<noteq> CHR 0x0A \<and> c \<noteq> CHR 0x0D else lower_ascii p = lower_ascii c)
      \<and> dot_here ps cs)"

fun dot_search :: "string \<Rightarrow> string \<Rightarrow> bool" where
  "dot_search p [] = dot_here p []"
| "dot_search p (c # cs) = (dot_here p (c # cs) \<or> dot_search p cs)"

definition dot_regex :: "string \<Rightarrow> (string \<Rightarrow> bool) option" where
  "dot_regex p =
     (if list_all (\<lambda>c. c = CHR ''.'' \<or> c \<in> set plain_chars) p then Some (dot_search p) else None)"

text \<open>The surroundings of the examples: identifiers of 24 hexadecimal digits, which are the
  strings that \<^verbatim>\<open>ObjectId.isValid\<close> accepts in the \<^verbatim>\<open>mongoose\<close> of \<^verbatim>\<open>package.json\<close>, dates written
  as their milliseconds, a QR generator and an email sender that succeed, a document layer that
  carries out every call, and no module \<^verbatim>\<open>bcrypt\<close>, as in an installation of the dependencies
  that \<^verbatim>\<open>package.json\<close> lists.\<close>

definition example_env :: "int option env" where
  "example_env =
     \<lparr>now = 1700000000000,
      new_id = (\<lambda>n. ''65b00000000000000000'' @ show_nat (1000 + n)),
      isValid = (\<lambda>s. length s = 24 \<and> list_all (\<lambda>c. c \<in> set ''0123456789abcdefABCDEF'') s),
      toLocaleString = show_nat,
      toLocaleDateString = show_nat,
      generateQrCode = (\<lambda>s. Some (''data:image/png;base64,'' @ s)),
      sendTicketEmail = (\<lambda>m. True),
      hashedPassword = None,
      regex_compile = dot_regex,
      accepts = (\<lambda>c. True)\<rparr>"

definition joanne :: "int option ticket" where
  "joanne =
     \<lparr>t_id = ''65b000000000000000000001'', t_invoiceNo = ''123'',
      t_user = ''65b000000000000000000002'', t_event = ''65b000000000000000000003'',
      t_name = ''Joanne Doe'', t_email = ''jo@example.org'', t_phone = None, t_church = None,
      t_youthMinistry = None, t_quantity = Some 1, t_productDetails = None,
      t_totalAmount = None, t_checkedIn = False, t_checkInTime = None\<rparr>"

definition checked_joanne :: "int option ticket" where
  "checked_joanne = joanne\<lparr>t_checkedIn := True, t_checkInTime := Some 1699999000000\<rparr>"

definition joannes_account :: user_doc where
  "joannes_account =
     \<lparr>usr_id = ''65b000000000000000000002'', usr_email = ''jo@example.org'',
      usr_passwordHash = ''$2b$10$N9qo8uLOickgx2ZMRZoMyeIjZAgcfl7p92ldGxad68LJZdL17lhWy''\<rparr>"

definition youth_event :: event_doc where
  "youth_event =
     \<lparr>ev_id = ''65b000000000000000000003'', ev_formId = ''241234567890'',
      ev_title = ''Youth Alive Event'', ev_startTime = 1699000000000,
      ev_endTime = 1699604800000\<rparr>"

text \<open>A store with one event, one registered user and their ticket.\<close>

definition example_store :: "int option store" where
  "example_store =
     \<lparr>events = [youth_event], users = [joannes_account], tickets = [joanne], next_id = 4,
      store_calls = [], qr_log = [], mail_log = []\<rparr>"





definition by_invoice_123 :: checkin_req where
  "by_invoice_123 = \<lparr>c_ticketId = None, c_invoiceNo = Some ''123'', c_eventId = None\<rparr>"

section \<open>Properties of the field extractor\<close>

lemma ep_fields:
  "JSON_parse example_platform = map_of example_JSON"
  "num_truthy example_platform = (\<lambda>n. n \<noteq> None \<and> n \<noteq> Some 0)"
  "parseInt10 example_platform =
     (\<lambda>s. case map_of [(''15'', Some 15)] s of Some v \<Rightarrow> v | None \<Rightarrow> None)"
  "parseFloat example_platform =
     (\<lambda>s. case map_of [(''75.00'', Some 75)] s of Some v \<Rightarrow> v | None \<Rightarrow> None)"
  "num_nat example_platform = (\<lambda>n. Some (int n))"
  "Date_now example_platform = 1700000000000"
  by (simp_all add: example_platform_def)

lemma parseFormFields_invoiceNo:
  "parseFormFields pf flds = Some r \<Longrightarrow> invoiceNo r = clean_invoice (raw_invoice pf flds)"
  by (auto simp: parseFormFields_def split: option.splits)

lemma parseFormFields_formId:
  "parseFormFields pf flds = Some r \<Longrightarrow> formId r = parse_formId pf flds"
  by (auto simp: parseFormFields_def split: option.splits)


lemma get_prop_absent: "k \<notin> fst ` set kvs \<Longrightarrow> get_prop (JObj kvs) k = JUndef"
  using map_of_eq_None_iff[of kvs k] by simp

lemma clean_placeholder: "clean_string (''INV-'' @ d) = d"
  by (simp add: clean_string_def)

lemma raw_invoice_absent:
  assumes "\<forall>k\<in>set invoice_aliases. \<not> truthy pf (flds k)"
  shows "raw_invoice pf flds = JStr (''INV-'' @ show_nat (Date_now pf))"
  using assms by (simp add: raw_invoice_def invoice_aliases_def)

lemma placeholder_cleaned:
  assumes "\<forall>k\<in>set invoice_aliases. k \<notin> fst ` set kvs"
    and "parseFormFields pf (get_prop (JObj kvs)) = Some r"
  shows "invoiceNo r = JStr (show_nat (Date_now pf))"
proof -
  have "\<forall>k\<in>set invoice_aliases. \<not> truthy pf (get_prop (JObj kvs) k)"
    using assms(1) by (simp add: get_prop_absent del: get_prop.simps)
  then have "raw_invoice pf (get_prop (JObj kvs)) = JStr (''INV-'' @ show_nat (Date_now pf))"
    by (rule raw_invoice_absent)
  with parseFormFields_invoiceNo[OF assms(2)] clean_placeholder[of "show_nat (Date_now pf)"]
  show ?thesis
    by (simp add: clean_invoice_def del: get_prop.simps)
qed

text \<open>
  Claim C5: a field mapping with none of the invoice alias keys gets the invoice number
  \<^verbatim>\<open>"INV-<epoch millis>"\<close>. The code builds that placeholder at line 270, where it initialises
  the default values, and then passes it through the cleaning of lines 397 to 399 like a value
  that a form supplied, which removes its \<^verbatim>\<open>INV-\<close>. On the empty mapping, with the clock at
  1700000000000, the invoice number returned is \<^verbatim>\<open>"1700000000000"\<close>, where the placeholder of
  the claim and of line 270 is \<^verbatim>\<open>"INV-1700000000000"\<close>.
\<close>

theorem placeholder_invoice_loses_prefix:
  "map_option invoiceNo (parseFormFields example_platform (get_prop (JObj [])))
     = Some (JStr ''1700000000000'')
   \<and> raw_invoice example_platform (get_prop (JObj [])) = JStr ''INV-1700000000000''
   \<and> ''INV-'' @ show_nat (Date_now example_platform) = ''INV-1700000000000''"
  by (simp add: parseFormFields_def parse_name_def parse_phone_def clean_invoice_def
      raw_invoice_def clean_string_def ep_fields show_nat.simps digit_char_def)

lemma strip_agree:
  assumes "\<not> prefix ''# INV-# '' s" and "\<not> prefix ''# INV-INV-'' s"
  shows "clean_string s = strip_one s"
proof (cases "prefix ''# INV-'' s")
  case True
  then obtain t where s: "s = ''# INV-'' @ t" by (auto simp: prefix_def)
  with assms have "\<not> prefix ''# '' t" "\<not> prefix ''INV-'' t" by (auto simp: prefix_def)
  with s show ?thesis by (simp add: clean_string_def strip_one_def)
next
  case F1: False
  show ?thesis
  proof (cases "prefix ''# '' s")
    case True
    then obtain t where s: "s = ''# '' @ t" by (auto simp: prefix_def)
    with F1 have "\<not> prefix ''INV-'' t" by (auto simp: prefix_def)
    with s F1 show ?thesis by (simp add: clean_string_def strip_one_def)
  next
    case False
    with F1 show ?thesis by (simp add: clean_string_def strip_one_def)
  qed
qed

lemma clean_shape:
  "\<exists>a\<in>{[], ''# INV-''}. \<exists>b\<in>{[], ''# ''}. \<exists>c\<in>{[], ''INV-''}. s = a @ b @ c @ clean_string s"
proof -
  define s1 where "s1 = (if prefix ''# INV-'' s then drop 6 s else s)"
  define s2 where "s2 = (if prefix ''# '' s1 then drop 2 s1 else s1)"
  define s3 where "s3 = (if prefix ''INV-'' s2 then drop 4 s2 else s2)"
  have c: "clean_string s = s3" by (simp add: clean_string_def s1_def s2_def s3_def Let_def)
  have 1: "s = [] @ s1 \<or> s = ''# INV-'' @ s1" by (auto simp: s1_def prefix_def)
  have 2: "s1 = [] @ s2 \<or> s1 = ''# '' @ s2" by (auto simp: s2_def prefix_def)
  have 3: "s2 = [] @ s3 \<or> s2 = ''INV-'' @ s3" by (auto simp: s3_def prefix_def)
  from 1 2 3 show ?thesis unfolding c by (elim disjE) simp_all
qed

text \<open>
  Claim C6 says that extraction strips at most one of the prefixes \<^verbatim>\<open>"# INV-"\<close>, \<^verbatim>\<open>"# "\<close>,
  \<^verbatim>\<open>"INV-"\<close>. The three tests of lines 387 to 399 are three separate \<^verbatim>\<open>if\<close> statements, not
  an \<^verbatim>\<open>else if\<close> chain, so each one sees what the one before left: \<^verbatim>\<open>"# INV-INV-123"\<close> loses
  two prefixes and yields \<^verbatim>\<open>"123"\<close>, where stripping at most one would yield \<^verbatim>\<open>"INV-123"\<close>.
\<close>

theorem clean_strips_two_prefixes:
  "map_option invoiceNo
     (parseFormFields example_platform
        (get_prop (JObj [(''q38_invoiceId'', JStr ''# INV-INV-123'')])))
     = Some (JStr ''123'')
   \<and> strip_one ''# INV-INV-123'' = ''INV-123''"
  by (simp add: parseFormFields_def parse_name_def parse_phone_def clean_invoice_def
      raw_invoice_def clean_string_def strip_one_def js_or_def)

lemma strip_prefixes:
  "strip ''# INV-'' s = (if prefix ''# INV-'' s then drop 6 s else s)"
  "strip ''# '' s = (if prefix ''# '' s then drop 2 s else s)"
  "strip ''INV-'' s = (if prefix ''INV-'' s then drop 4 s else s)"
proof -
  have l: "length ''# INV-'' = 6" "length ''# '' = 2" "length ''INV-'' = 4" by simp_all
  show "strip ''# INV-'' s = (if prefix ''# INV-'' s then drop 6 s else s)"
    "strip ''# '' s = (if prefix ''# '' s then drop 2 s else s)"
    "strip ''INV-'' s = (if prefix ''INV-'' s then drop 4 s else s)"
    unfolding strip_def l by (rule refl)+
qed

lemma clean_strip: "clean_string s = strip ''INV-'' (strip ''# '' (strip ''# INV-'' s))"
  unfolding strip_prefixes clean_string_def Let_def by (rule refl)

lemma clean_twice: "clean_string (''# INV-INV-'' @ t) = t"
  by (simp add: clean_string_def)

lemma clean_thrice: "clean_string (''# INV-# '' @ t) = strip ''INV-'' t"
  by (simp add: clean_string_def strip_prefixes)

text \<open>
  Claim C6 as amended: for every string invoice value, extraction applies the three tests in
  sequence - \<^verbatim>\<open>"# INV-"\<close>, then \<^verbatim>\<open>"# "\<close>, then \<^verbatim>\<open>"INV-"\<close> - each removing its prefix when
  the value then begins with it, so the part removed is a concatenation of some of the three
  in that order, and up to three can go: a value \<^verbatim>\<open>"# INV-INV-"\<close> followed by \<open>t\<close> yields
  \<open>t\<close>, and a value \<^verbatim>\<open>"# INV-# "\<close> followed by \<open>t\<close> yields \<open>t\<close> without a leading \<^verbatim>\<open>"INV-"\<close>.
  At most one prefix goes unless the value begins with \<^verbatim>\<open>"# INV-# "\<close> or \<^verbatim>\<open>"# INV-INV-"\<close>.
  In particular \<^verbatim>\<open>"# INV-123"\<close> yields \<^verbatim>\<open>"123"\<close>, \<^verbatim>\<open>"INV-123"\<close> yields \<^verbatim>\<open>"123"\<close>, \<^verbatim>\<open>"123"\<close>
  is returned unchanged, and cleaning any of these outputs again changes nothing.
\<close>

theorem clean_invoice_prefixes:
  "(parseFormFields pf flds = Some r \<and> flds ''q38_invoiceId'' = JStr s \<and> s \<noteq> []
      \<longrightarrow> invoiceNo r = JStr (clean_string s))
   \<and> clean_string s = strip ''INV-'' (strip ''# '' (strip ''# INV-'' s))
   \<and> clean_string (''# INV-INV-'' @ t) = t
   \<and> clean_string (''# INV-# '' @ t) = strip ''INV-'' t
   \<and> (\<exists>a\<in>{[], ''# INV-''}. \<exists>b\<in>{[], ''# ''}. \<exists>c\<in>{[], ''INV-''}. s = a @ b @ c @ clean_string s)
   \<and> (\<not> prefix ''# INV-# '' s \<and> \<not> prefix ''# INV-INV-'' s \<longrightarrow> clean_string s = strip_one s)
   \<and> clean_string ''# INV-123'' = ''123'' \<and> clean_string ''INV-123'' = ''123''
   \<and> clean_string ''123'' = ''123'' \<and> clean_string (clean_string ''# INV-123'') = ''123''
   \<and> clean_string (clean_string ''INV-123'') = ''123''"
proof -
  have A: "parseFormFields pf flds = Some r \<and> flds ''q38_invoiceId'' = JStr s \<and> s \<noteq> []
      \<longrightarrow> invoiceNo r = JStr (clean_string s)"
    by (auto dest!: parseFormFields_invoiceNo simp: raw_invoice_def js_or_def clean_invoice_def)
  have B: "\<not> prefix ''# INV-# '' s \<and> \<not> prefix ''# INV-INV-'' s \<longrightarrow> clean_string s = strip_one s"
    using strip_agree by blast
  have C: "clean_string ''# INV-123'' = ''123''" "clean_string ''INV-123'' = ''123''"
    "clean_string ''123'' = ''123''"
    by (simp_all add: clean_string_def)
  have D: "clean_string s = strip ''INV-'' (strip ''# '' (strip ''# INV-'' s))"
    "clean_string (''# INV-INV-'' @ t) = t" "clean_string (''# INV-# '' @ t) = strip ''INV-'' t"
    by (rule clean_strip, rule clean_twice, rule clean_thrice)
  from A B D clean_shape[of s] show ?thesis unfolding C by blast
qed

theorem clean_invoice_prefixes_witness:
  "map_option invoiceNo
     (parseFormFields example_platform (get_prop (JObj [(''q38_invoiceId'', JStr ''# INV-123'')])))
     = Some (JStr ''123'')
   \<and> clean_string ''# INV-123'' = strip_one ''# INV-123''
   \<and> clean_string ''# INV-INV-456'' = ''456''
   \<and> clean_string ''# INV-# INV-456'' = ''456''"
proof -
  let ?flds = "get_prop (JObj [(''q38_invoiceId'', JStr ''# INV-123'') :: string \<times> int option jsval])"
  obtain r where p: "parseFormFields example_platform ?flds = Some r"
    by (simp add: parseFormFields_def parse_name_def parse_phone_def)
  have q: "?flds ''q38_invoiceId'' = JStr ''# INV-123''" "''# INV-123'' \<noteq> []"
    "\<not> prefix ''# INV-# '' ''# INV-123''" "\<not> prefix ''# INV-INV-'' ''# INV-123''"
    by simp_all
  from clean_invoice_prefixes[of example_platform ?flds r "''# INV-123''" "''456''"] p q
  have "invoiceNo r = JStr (clean_string ''# INV-123'')"
    "clean_string ''# INV-123'' = strip_one ''# INV-123''" "clean_string ''# INV-123'' = ''123''"
    "clean_string (''# INV-INV-'' @ ''456'') = ''456''"
    by blast+
  moreover from clean_invoice_prefixes[of example_platform ?flds r "''# INV-123''" "''INV-456''"]
  have "clean_string (''# INV-# '' @ ''INV-456'') = strip ''INV-'' ''INV-456''" by blast
  ultimately show ?thesis using p by (simp add: strip_prefixes)
qed















section \<open>Properties of the submission normalizer\<close>

lemma own_set_field:
  "k \<noteq> ''__proto__'' \<Longrightarrow>
   map_of (own (set_field ff kv)) k = (if fst kv = k then Some (snd kv) else map_of (own ff) k)"
  by (auto simp: set_field_def update_conv')

lemma own_build:
  "k \<noteq> ''__proto__'' \<Longrightarrow>
   map_of (own (foldl set_field ff es)) k =
     (case map_of (rev es) k of Some v \<Rightarrow> Some v | None \<Rightarrow> map_of (own ff) k)"
proof (induction es rule: rev_induct)
  case Nil
  then show ?case by simp
next
  case (snoc x xs)
  then show ?case by (cases x) (simp add: own_set_field)
qed

lemma proto_build:
  "''__proto__'' \<notin> fst ` set es \<Longrightarrow> proto (foldl set_field ff es) = proto ff"
  by (induction es rule: rev_induct) (auto simp: set_field_def)

lemma map_of_rev_absent: "k \<notin> fst ` set es \<Longrightarrow> map_of (rev es) k = None"
  using map_of_eq_None_iff[of "rev es" k] by simp

lemma map_of_rev_distinct:
  "distinct (map fst es) \<Longrightarrow> (k, v) \<in> set es \<Longrightarrow> map_of (rev es) k = Some v"
  by (rule map_of_is_SomeI) (simp_all add: rev_map[symmetric])

lemma map_of_rev_same: "distinct (map fst es) \<Longrightarrow> map_of (rev es) k = map_of es k"
proof (cases "map_of es k")
  case None
  then have "k \<notin> fst ` set es" by (simp add: map_of_eq_None_iff)
  with None show ?thesis by (simp add: map_of_rev_absent)
next
  case (Some v)
  assume "distinct (map fst es)"
  from map_of_rev_distinct[OF this map_of_SomeD[OF Some]] Some show ?thesis by simp
qed

lemma parse_formId_falsy:
  "\<not> truthy pf (parse_formId pf flds) \<Longrightarrow> parse_formId pf flds = JStr []"
  by (auto simp: parse_formId_def js_or_def split: if_splits)

lemma nested_formId_outer:
  assumes "\<forall>k\<in>{''formID'', ''form_id'', ''formId'', ''__proto__''}. k \<notin> fst ` set es"
  shows "parse_formId pf (fields_get (build_fields (parse_formId pf flds) es)) = parse_formId pf flds"
proof -
  let ?f0 = "parse_formId pf flds"
  let ?ff = "build_fields ?f0 es"
  have p: "proto ?ff = ObjectPrototype"
    using assms by (simp add: build_fields_def proto_build)
  have a: "fields_get ?ff ''formID'' = ?f0" "fields_get ?ff ''formId'' = ?f0"
    "fields_get ?ff ''form_id'' = JUndef"
    using assms p by (simp_all add: fields_get_def build_fields_def own_build map_of_rev_absent)
  show ?thesis
  proof (cases "truthy pf ?f0")
    case True
    then show ?thesis unfolding parse_formId_def[of pf "fields_get ?ff"] a by (simp add: js_or_def)
  next
    case False
    then have "?f0 = JStr []" by (rule parse_formId_falsy)
    then show ?thesis unfolding parse_formId_def[of pf "fields_get ?ff"] a by (simp add: js_or_def)
  qed
qed

lemma nested_formId_inner:
  assumes "distinct (map fst es)" "(''formID'', v) \<in> set es" "truthy pf v"
  shows "parse_formId pf (fields_get (build_fields f0 es)) = v"
proof -
  have "fields_get (build_fields f0 es) ''formID'' = v"
    using assms by (simp add: fields_get_def build_fields_def own_build map_of_rev_distinct)
  with assms(3) show ?thesis by (simp add: parse_formId_def js_or_def)
qed

text \<open>
  Claim C4 says that in nested mode the outer form identifier overrides any inner one. The
  code injects the outer value into \<^verbatim>\<open>formFields\<close> first (lines 144 and 145) and copies the
  entries of the parsed \<^verbatim>\<open>rawRequest\<close> over it afterwards (lines 148 to 156), so an inner
  \<^verbatim>\<open>formID\<close> replaces the injected one: the payload with \<^verbatim>\<open>formID\<close> \<^verbatim>\<open>"A"\<close> whose
  \<^verbatim>\<open>rawRequest\<close> holds \<^verbatim>\<open>formID\<close> \<^verbatim>\<open>"B"\<close> is parsed to the form identifier \<^verbatim>\<open>"B"\<close>.
\<close>

theorem nested_inner_formID_wins:
  \<open>map_option formId
     (parseWebhook example_platform
        (JObj [(''formID'', JStr ''A''), (''rawRequest'', JStr ''{"formID":"B"}'')]))
     = Some (JStr ''B'')
   \<and> parse_formId example_platform
        (get_prop (JObj [(''formID'', JStr ''A''), (''rawRequest'', JStr ''{"formID":"B"}'')]))
     = JStr ''A''\<close>
  by (simp add: parseWebhook_def nested_parse_def parse_formId_def js_or_def ep_fields
      example_JSON_def build_fields_def set_field_def fields_get_def parseFormFields_def
      parse_name_def parse_phone_def Let_def)

lemma parse_formId_cong:
  assumes "g ''formID'' = h ''formID''" "g ''form_id'' = h ''form_id''" "g ''formId'' = h ''formId''"
  shows "parse_formId pf g = parse_formId pf h"
  using assms by (simp add: parse_formId_def)

lemma nested_formId_kept:
  assumes "''formID'' \<notin> fst ` set es" and "truthy pf f0"
  shows "parse_formId pf (fields_get (build_fields f0 es)) = f0"
proof -
  have "fields_get (build_fields f0 es) ''formID'' = f0"
    using assms(1) by (simp add: fields_get_def build_fields_def own_build map_of_rev_absent)
  with assms(2) show ?thesis by (simp add: parse_formId_def js_or_def)
qed

lemma nested_formId_read:
  assumes "distinct (map fst es)" and "''__proto__'' \<notin> fst ` set es"
  shows "parse_formId pf (fields_get (build_fields f0 es)) = parse_formId pf (with_outer f0 es)"
proof (rule parse_formId_cong)
  have p: "proto (build_fields f0 es) = ObjectPrototype"
    using assms(2) by (simp add: build_fields_def proto_build)
  have r: "map_of (rev es) k = map_of es k" for k
    using assms(1) by (rule map_of_rev_same)
  show "fields_get (build_fields f0 es) ''formID'' = with_outer f0 es ''formID''"
    by (simp add: fields_get_def build_fields_def own_build r with_outer_def
        split: option.splits)
  show "fields_get (build_fields f0 es) ''form_id'' = with_outer f0 es ''form_id''"
    using p by (simp add: fields_get_def own_build r with_outer_def build_fields_def
        split: option.splits)
  show "fields_get (build_fields f0 es) ''formId'' = with_outer f0 es ''formId''"
    by (simp add: fields_get_def build_fields_def own_build r with_outer_def
        split: option.splits)
qed

text \<open>
  Claim C4 as amended: in nested mode (a payload whose \<^verbatim>\<open>rawRequest\<close> parses to a mapping),
  the resulting form identifier equals the first truthy of the outer payload's \<^verbatim>\<open>formID\<close>,
  \<^verbatim>\<open>form_id\<close>, \<^verbatim>\<open>formId\<close> whenever the embedded mapping has no \<^verbatim>\<open>formID\<close> key, even when it
  has a \<^verbatim>\<open>form_id\<close> or a \<^verbatim>\<open>formId\<close> key; where the outer payload has no truthy one, the result
  is the empty string when the embedded mapping has none of the three keys (and no
  \<^verbatim>\<open>__proto__\<close> key). When the embedded mapping has a truthy \<^verbatim>\<open>formID\<close> and its fields parse,
  that inner value is the result: it overrides the outer one. In every case where the fields
  parse (and there is no \<^verbatim>\<open>__proto__\<close> key) the result is the first truthy of \<^verbatim>\<open>formID\<close>,
  \<^verbatim>\<open>form_id\<close>, \<^verbatim>\<open>formId\<close> read from the embedded mapping, the outer value standing in for
  \<^verbatim>\<open>formID\<close> and for \<^verbatim>\<open>formId\<close> where the mapping lacks the key.
\<close>

theorem nested_formId:
  assumes "parseWebhook pf payload = Some r"
    and "truthy pf (get_prop payload ''rawRequest'')"
    and "js_to_string pf (get_prop payload ''rawRequest'') = Some txt"
    and "JSON_parse pf txt = Some (JObj kvs)"
    and "distinct (map fst kvs)"
  shows "(''formID'' \<notin> fst ` set kvs \<and> truthy pf (parse_formId pf (get_prop payload))
            \<longrightarrow> formId r = parse_formId pf (get_prop payload))
         \<and> ((\<forall>k\<in>{''formID'', ''form_id'', ''formId'', ''__proto__''}. k \<notin> fst ` set kvs)
            \<longrightarrow> formId r = parse_formId pf (get_prop payload))
         \<and> (\<forall>v. (''formID'', v) \<in> set kvs \<and> truthy pf v
                 \<and> nested_parse pf (parse_formId pf (get_prop payload))
                      (get_prop payload ''rawRequest'') \<noteq> None
               \<longrightarrow> formId r = v)
         \<and> (''__proto__'' \<notin> fst ` set kvs
              \<and> nested_parse pf (parse_formId pf (get_prop payload))
                   (get_prop payload ''rawRequest'') \<noteq> None
            \<longrightarrow> formId r = parse_formId pf (with_outer (parse_formId pf (get_prop payload)) kvs))"
proof -
  let ?f0 = "parse_formId pf (get_prop payload)"
  let ?nested = "nested_parse pf ?f0 (get_prop payload ''rawRequest'')"
  have n: "?nested = parseFormFields pf (fields_get (build_fields ?f0 kvs))"
    using assms(3,4) by (simp add: nested_parse_def)
  have w: "(?nested = Some r) \<or> (?nested = None \<and> parseFormFields pf (get_prop payload) = Some r)"
    using assms(1,2) by (auto simp: parseWebhook_def Let_def split: if_splits option.splits)
  have inner: "formId r = parse_formId pf (fields_get (build_fields ?f0 kvs))" if "?nested = Some r"
    using that n by (simp add: parseFormFields_formId)
  have 0: "formId r = ?f0" if "''formID'' \<notin> fst ` set kvs" "truthy pf ?f0"
    using w
  proof
    assume "?nested = Some r"
    with inner nested_formId_kept[OF that] show ?thesis by simp
  next
    assume "?nested = None \<and> parseFormFields pf (get_prop payload) = Some r"
    then show ?thesis by (simp add: parseFormFields_formId)
  qed
  have 1: "formId r = ?f0"
    if "\<forall>k\<in>{''formID'', ''form_id'', ''formId'', ''__proto__''}. k \<notin> fst ` set kvs"
    using w
  proof
    assume "?nested = Some r"
    with inner nested_formId_outer[OF that] show ?thesis by simp
  next
    assume "?nested = None \<and> parseFormFields pf (get_prop payload) = Some r"
    then show ?thesis by (simp add: parseFormFields_formId)
  qed
  have 2: "formId r = v" if "(''formID'', v) \<in> set kvs" "truthy pf v" "?nested \<noteq> None" for v
  proof -
    from w that(3) have "?nested = Some r" by auto
    with inner nested_formId_inner[OF assms(5) that(1,2)] show ?thesis by simp
  qed
  have 3: "formId r = parse_formId pf (with_outer ?f0 kvs)"
    if "''__proto__'' \<notin> fst ` set kvs" "?nested \<noteq> None"
  proof -
    from w that(2) have "?nested = Some r" by auto
    with inner nested_formId_read[OF assms(5) that(1)] show ?thesis by simp
  qed
  from 0 1 2 3 show ?thesis by blast
qed

theorem nested_formId_witness:
  \<open>map_option formId
     (parseWebhook example_platform
        (JObj [(''formID'', JStr ''A''),
               (''rawRequest'', JStr ''{"q5_email":"jane@example.org"}'')]))
     = Some (JStr ''A'')
   \<and> map_option formId
     (parseWebhook example_platform
        (JObj [(''formID'', JStr ''A''), (''rawRequest'', JStr ''{"formID":"B"}'')]))
     = Some (JStr ''B'')
   \<and> map_option formId
     (parseWebhook example_platform
        (JObj [(''formID'', JStr ''A''),
               (''rawRequest'', JStr ''{"form_id":"C","formId":"D"}'')]))
     = Some (JStr ''A'')\<close>
proof -
  let ?t1 = \<open>''{"q5_email":"jane@example.org"}''\<close>
  let ?t2 = \<open>''{"formID":"B"}''\<close>
  let ?t3 = \<open>''{"form_id":"C","formId":"D"}''\<close>
  let ?p1 = "JObj [(''formID'', JStr ''A''), (''rawRequest'', JStr ?t1)] :: int option jsval"
  let ?p2 = "JObj [(''formID'', JStr ''A''), (''rawRequest'', JStr ?t2)] :: int option jsval"
  let ?p3 = "JObj [(''formID'', JStr ''A''), (''rawRequest'', JStr ?t3)] :: int option jsval"
  let ?k1 = "[(''q5_email'', JStr ''jane@example.org'')] :: (string \<times> int option jsval) list"
  let ?k2 = "[(''formID'', JStr ''B'')] :: (string \<times> int option jsval) list"
  let ?k3 = "[(''form_id'', JStr ''C''), (''formId'', JStr ''D'')]
               :: (string \<times> int option jsval) list"
  have ev: "nested_parse example_platform (JStr ''A'') (JStr ?t1) \<noteq> None"
    "nested_parse example_platform (JStr ''A'') (JStr ?t2) \<noteq> None"
    "nested_parse example_platform (JStr ''A'') (JStr ?t3) \<noteq> None"
    by (simp_all add: nested_parse_def ep_fields example_JSON_def parseFormFields_def
        parse_name_def parse_phone_def build_fields_def set_field_def fields_get_def)
  have f0: "parse_formId example_platform (get_prop ?p1) = JStr ''A''"
    "parse_formId example_platform (get_prop ?p2) = JStr ''A''"
    "parse_formId example_platform (get_prop ?p3) = JStr ''A''"
    by (simp_all add: parse_formId_def js_or_def)
  obtain r1 where r1: "parseWebhook example_platform ?p1 = Some r1"
    using ev(1) by (auto simp: parseWebhook_def f0 Let_def)
  obtain r2 where r2: "parseWebhook example_platform ?p2 = Some r2"
    using ev(2) by (auto simp: parseWebhook_def f0 Let_def)
  obtain r3 where r3: "parseWebhook example_platform ?p3 = Some r3"
    using ev(3) by (auto simp: parseWebhook_def f0 Let_def)
  have h1: "truthy example_platform (get_prop ?p1 ''rawRequest'')"
    "js_to_string example_platform (get_prop ?p1 ''rawRequest'') = Some ?t1"
    "JSON_parse example_platform ?t1 = Some (JObj ?k1)" "distinct (map fst ?k1)"
    "\<forall>k\<in>{''formID'', ''form_id'', ''formId'', ''__proto__''}. k \<notin> fst ` set ?k1"
    by (simp_all add: ep_fields example_JSON_def)
  have h2: "truthy example_platform (get_prop ?p2 ''rawRequest'')"
    "js_to_string example_platform (get_prop ?p2 ''rawRequest'') = Some ?t2"
    "JSON_parse example_platform ?t2 = Some (JObj ?k2)" "distinct (map fst ?k2)"
    "(''formID'', JStr ''B'') \<in> set ?k2" "truthy example_platform (JStr ''B'')"
    "nested_parse example_platform (parse_formId example_platform (get_prop ?p2))
       (get_prop ?p2 ''rawRequest'') \<noteq> None"
    "''__proto__'' \<notin> fst ` set ?k2"
    "parse_formId example_platform (with_outer (JStr ''A'') ?k2) = JStr ''B''"
    using ev(2) by (simp_all add: ep_fields example_JSON_def f0 with_outer_def parse_formId_def
        js_or_def)
  have h3: "truthy example_platform (get_prop ?p3 ''rawRequest'')"
    "js_to_string example_platform (get_prop ?p3 ''rawRequest'') = Some ?t3"
    "JSON_parse example_platform ?t3 = Some (JObj ?k3)" "distinct (map fst ?k3)"
    "''formID'' \<notin> fst ` set ?k3" "truthy example_platform (JStr ''A'')"
    by (simp_all add: ep_fields example_JSON_def)
  from nested_formId[OF r1 h1(1-4)] h1(5) have "formId r1 = JStr ''A''"
    unfolding f0 by blast
  moreover from nested_formId[OF r2 h2(1-4)] h2(5-9) have "formId r2 = JStr ''B''"
    unfolding f0 by blast
  moreover from nested_formId[OF r3 h3(1-4)] h3(5,6) have "formId r3 = JStr ''A''"
    unfolding f0 by blast
  ultimately show ?thesis using r1 r2 r3 by simp
qed

section \<open>Properties of the product parser\<close>










section \<open>Properties of the ticket lifecycle\<close>

lemma example_env_fields:
  "now example_env = 1700000000000"
  "toLocaleString example_env = show_nat"
  "isValid example_env =
     (\<lambda>s. length s = 24 \<and> list_all (\<lambda>c. c \<in> set ''0123456789abcdefABCDEF'') s)"
  "regex_compile example_env = dot_regex"
  "sendTicketEmail example_env = (\<lambda>m. True)"
  "generateQrCode example_env = (\<lambda>s. Some (''data:image/png;base64,'' @ s))"
  "accepts example_env = (\<lambda>c. True)"
  "hashedPassword example_env = None"
  by (simp_all add: example_env_def)

lemma joanne_fields:
  "t_id joanne = ''65b000000000000000000001''" "t_invoiceNo joanne = ''123''"
  "t_event joanne = ''65b000000000000000000003''" "t_name joanne = ''Joanne Doe''"
  "t_email joanne = ''jo@example.org''" "t_checkedIn joanne = False"
  "t_checkInTime joanne = None"
  by (simp_all add: joanne_def)

lemma example_store_fields:
  "tickets example_store = [joanne]" "store_calls example_store = []"
  "qr_log example_store = []" "mail_log example_store = []"
  "users example_store = [joannes_account]" "events example_store = [youth_event]"
  "next_id example_store = 4"
  by (simp_all add: example_store_def)

lemma never_reverts_refl: "never_reverts ts ts"
  by (simp add: never_reverts_def)

lemma never_reverts_trans:
  "never_reverts a b \<Longrightarrow> never_reverts b c \<Longrightarrow> never_reverts a c"
  unfolding never_reverts_def by (metis le_trans less_le_trans)

lemma never_reverts_append: "never_reverts ts (ts @ us)"
  by (simp add: never_reverts_def nth_append)

lemma length_update_first: "length (update_first P f xs) = length xs"
  by (induction xs) auto

lemma nth_update_first:
  "i < length xs \<Longrightarrow> update_first P f xs ! i = xs ! i \<or> update_first P f xs ! i = f (xs ! i)"
proof (induction xs arbitrary: i)
  case Nil
  then show ?case by simp
next
  case (Cons x xs)
  then show ?case by (cases i) auto
qed

lemma never_reverts_update:
  "never_reverts ts
     (update_first P (\<lambda>x. x\<lparr>t_checkedIn := True, t_checkInTime := Some n\<rparr>) ts)"
  unfolding never_reverts_def length_update_first
proof (intro conjI allI impI)
  fix i assume i: "i < length ts"
  let ?f = "\<lambda>x::'a ticket. x\<lparr>t_checkedIn := True, t_checkInTime := Some n\<rparr>"
  from nth_update_first[OF i, of P ?f]
  show "t_id (update_first P ?f ts ! i) = t_id (ts ! i)" by auto
  assume "t_checkedIn (ts ! i)"
  with nth_update_first[OF i, of P ?f]
  show "t_checkedIn (update_first P ?f ts ! i)" by auto
qed simp

lemma findOne_eq:
  "findOne e st f =
     (if accepts e (TicketFindOne f) then Some (find (matches f) (tickets st)) else None,
      st\<lparr>store_calls := store_calls st @ [TicketFindOne f]\<rparr>)"
  by (simp add: findOne_def call_def)

lemma tickets_checkIn_find: "tickets (snd (checkIn_find e st rq)) = tickets st"
  by (simp add: checkIn_find_def findOne_eq split: option.splits)

lemma found_checkIn_find:
  "checkIn_find e st rq = (Inr (Some t), st1) \<Longrightarrow> t \<in> set (tickets st) \<and> tickets st1 = tickets st"
  by (auto simp: checkIn_find_def findOne_eq find_Some_iff split: option.splits if_splits)

lemma checkIn_finish_reverts:
  "never_reverts (tickets st) (tickets (snd (checkIn_finish e st rq found)))"
  by (auto simp: checkIn_finish_def call_def never_reverts_refl never_reverts_update Let_def
      split: option.splits)

lemma checkIn_reverts: "never_reverts (tickets st) (tickets (snd (checkIn e st rq)))"
proof (cases "checkIn_find e st rq")
  case (Pair a st1)
  have t: "tickets st1 = tickets st" using tickets_checkIn_find[of e st rq] Pair by simp
  show ?thesis
  proof (cases a)
    case (Inl r)
    with Pair t show ?thesis by (simp add: checkIn_def never_reverts_refl)
  next
    case (Inr found)
    with Pair t checkIn_finish_reverts[of st1 e rq found] show ?thesis by (simp add: checkIn_def)
  qed
qed

lemma tickets_search: "tickets (snd (searchGuests e st rq)) = tickets st"
  by (auto simp: searchGuests_def search_tickets_def call_def split: option.splits)

lemma tickets_lookup: "tickets (snd (lookupTicket e st rq)) = tickets st"
  by (auto simp: lookupTicket_def findOne_eq split: option.splits)

lemma resolve_event_frame:
  "tickets (snd (resolve_event e st sub)) = tickets st
   \<and> qr_log (snd (resolve_event e st sub)) = qr_log st
   \<and> mail_log (snd (resolve_event e st sub)) = mail_log st"
  by (simp add: resolve_event_def call_def Let_def split: option.splits)

lemma resolve_user_frame:
  "tickets (snd (resolve_user e st sub)) = tickets st
   \<and> qr_log (snd (resolve_user e st sub)) = qr_log st
   \<and> mail_log (snd (resolve_user e st sub)) = mail_log st"
  by (simp add: resolve_user_def call_def Let_def split: option.splits)

lemma matches_invoice:
  "matches \<lparr>by_id = None, by_invoiceNo = Some ino, by_event = None\<rparr> = (\<lambda>t. t_invoiceNo t = ino)"
  by (rule ext) (simp add: matches_def)


lemma resolve_event_accepted:
  assumes "\<forall>c. accepts e c"
  shows "\<exists>ev st1. resolve_event e st sub = (Some ev, st1) \<and> tickets st1 = tickets st
           \<and> qr_log st1 = qr_log st \<and> mail_log st1 = mail_log st \<and> users st1 = users st"
  using assms by (simp add: resolve_event_def call_def Let_def split: option.splits)





lemma notify_frame:
  "tickets (snd (notify e st sub ev t)) = tickets st
   \<and> qr_log (snd (notify e st sub ev t)) = qr_log st @ [s_invoiceNo sub]
   \<and> length (mail_log (snd (notify e st sub ev t))) \<le> length (mail_log st) + 1
   \<and> (\<forall>i. fst (notify e st sub ev t) = Processed i \<longrightarrow> i = t_id t)"
  by (simp add: notify_def Let_def split: option.splits)

lemma resolve_ticket_cases:
  "(untouched st (snd (resolve_ticket pf e st sub u ev))
      \<and> (\<forall>i. fst (resolve_ticket pf e st sub u ev) = Processed i \<longrightarrow>
             (\<exists>t\<in>set (tickets st). t_invoiceNo t = s_invoiceNo sub \<and> i = t_id t)))
   \<or> created (s_invoiceNo sub) (fst (resolve_ticket pf e st sub u ev)) st
        (snd (resolve_ticket pf e st sub u ev))"
proof (cases "accepts e (TicketFindOne \<lparr>by_id = None, by_invoiceNo = Some (s_invoiceNo sub), by_event = None\<rparr>)")
  case False
  then show ?thesis by (simp add: resolve_ticket_def findOne_eq untouched_def)
next
  case acc: True
  show ?thesis
  proof (cases "find (\<lambda>t. t_invoiceNo t = s_invoiceNo sub) (tickets st)")
    case (Some t)
    then have "t \<in> set (tickets st) \<and> t_invoiceNo t = s_invoiceNo sub"
      by (auto simp: find_Some_iff)
    with Some acc show ?thesis
      by (auto simp: resolve_ticket_def findOne_eq matches_invoice untouched_def)
  next
    case None
    define st1 where "st1 = st\<lparr>store_calls := store_calls st
        @ [TicketFindOne \<lparr>by_id = None, by_invoiceNo = Some (s_invoiceNo sub), by_event = None\<rparr>]\<rparr>"
    define t where "t = new_ticket pf e st1 sub u ev"
    define st2 where "st2 = st1\<lparr>next_id := Suc (next_id st1),
        store_calls := store_calls st1 @ [TicketSave t]\<rparr>"
    have r: "resolve_ticket pf e st sub u ev =
       (if accepts e (TicketSave t) then notify e (st2\<lparr>tickets := tickets st @ [t]\<rparr>) sub ev t
        else (Failure 500 ''Error processing webhook'', st2))"
      using None acc
      by (simp add: resolve_ticket_def findOne_eq matches_invoice call_def Let_def st1_def t_def
          st2_def)
    have f: "tickets st2 = tickets st" "qr_log st2 = qr_log st" "mail_log st2 = mail_log st"
      by (simp_all add: st2_def st1_def)
    have n: "t_invoiceNo t = s_invoiceNo sub" "\<not> t_checkedIn t"
      by (simp_all add: t_def new_ticket_def)
    show ?thesis
    proof (cases "accepts e (TicketSave t)")
      case False
      with r f show ?thesis by (simp add: untouched_def)
    next
      case True
      with r have r': "resolve_ticket pf e st sub u ev
          = notify e (st2\<lparr>tickets := tickets st @ [t]\<rparr>) sub ev t" by simp
      from notify_frame[of e "st2\<lparr>tickets := tickets st @ [t]\<rparr>" sub ev t] f n None
      have "created (s_invoiceNo sub) (fst (resolve_ticket pf e st sub u ev)) st
        (snd (resolve_ticket pf e st sub u ev))"
        unfolding r' created_def by auto
      then show ?thesis by simp
    qed
  qed
qed

lemma webhook_invalid:
  "\<not> required_present sub \<Longrightarrow>
   webhookHandler pf e st sub = (MissingFields (s_email sub) (s_formId sub) (s_invoiceNo sub), st)"
  by (auto simp: webhookHandler_def required_present_def)

lemma untouched_refl: "untouched st st"
  by (simp add: untouched_def)

lemma webhook_cases:
  "(untouched st (snd (webhookHandler pf e st sub))
      \<and> (\<forall>i. fst (webhookHandler pf e st sub) = Processed i \<longrightarrow>
             (\<exists>t\<in>set (tickets st). t_invoiceNo t = s_invoiceNo sub \<and> i = t_id t)))
   \<or> created (s_invoiceNo sub) (fst (webhookHandler pf e st sub)) st
        (snd (webhookHandler pf e st sub))"
proof (cases "required_present sub")
  case False
  then show ?thesis by (simp add: webhook_invalid untouched_refl)
next
  case True
  obtain oev st1 where ev: "resolve_event e st sub = (oev, st1)" by (cases "resolve_event e st sub")
  have f1: "tickets st1 = tickets st" "qr_log st1 = qr_log st" "mail_log st1 = mail_log st"
    using resolve_event_frame[of e st sub] ev by simp_all
  show ?thesis
  proof (cases oev)
    case None
    with True ev f1 show ?thesis
      by (simp add: webhookHandler_def required_present_def untouched_def)
  next
    case (Some ev')
    obtain ou st2 where u: "resolve_user e st1 sub = (ou, st2)" by (cases "resolve_user e st1 sub")
    have f2: "tickets st2 = tickets st" "qr_log st2 = qr_log st" "mail_log st2 = mail_log st"
      using resolve_user_frame[of e st1 sub] u f1 by simp_all
    show ?thesis
    proof (cases ou)
      case None
      with True ev Some u f2 show ?thesis
        by (simp add: webhookHandler_def required_present_def untouched_def)
    next
      case (Some u')
      with True ev \<open>oev = Some ev'\<close> u
      have w: "webhookHandler pf e st sub = resolve_ticket pf e st2 sub u' ev'"
        by (simp add: webhookHandler_def required_present_def)
      from resolve_ticket_cases[of st2 pf e sub u' ev'] f2 show ?thesis
        unfolding w untouched_def created_def by simp
    qed
  qed
qed


lemma webhook_without_hash:
  assumes "required_present sub" and "\<forall>c. accepts e c"
    and "find (\<lambda>u. usr_email u = s_email sub) (users st) = None"
    and "hashedPassword e = None"
  shows "fst (webhookHandler pf e st sub) = Failure 500 ''Error processing webhook''"
    and "tickets (snd (webhookHandler pf e st sub)) = tickets st"
proof -
  from resolve_event_accepted[OF assms(2), of st sub] obtain ev st1
    where ev: "resolve_event e st sub = (Some ev, st1)" and f: "tickets st1 = tickets st"
      "users st1 = users st" by blast
  from assms(2-4) f(2)
  have u: "resolve_user e st1 sub = (None, st1\<lparr>store_calls := store_calls st1 @ [UserFindOne (s_email sub)]\<rparr>)"
    by (simp add: resolve_user_def call_def)
  from assms(1) ev u f(1)
  show "fst (webhookHandler pf e st sub) = Failure 500 ''Error processing webhook''"
    "tickets (snd (webhookHandler pf e st sub)) = tickets st"
    by (simp_all add: webhookHandler_def required_present_def)
qed





lemma webhook_never_reverts:
  "never_reverts (tickets st) (tickets (snd (webhookHandler pf e st sub)))"
  using webhook_cases[of st pf e sub]
  by (auto simp: untouched_def created_def never_reverts_refl never_reverts_append)

lemma handle_never_reverts: "never_reverts (tickets st) (tickets (snd (handle pf e st rq)))"
  by (cases rq)
     (simp_all add: webhook_never_reverts checkIn_reverts tickets_search tickets_lookup
        never_reverts_refl)

lemma run_never_reverts: "never_reverts (tickets st) (tickets (run pf st rqs))"
proof (induction rqs arbitrary: st)
  case Nil
  then show ?case by (simp add: never_reverts_refl)
next
  case (Cons a rqs)
  obtain e rq where a: "a = (e, rq)" by (cases a)
  from handle_never_reverts[of st pf e rq] Cons[of "snd (handle pf e st rq)"]
  show ?case unfolding a by (simp add: never_reverts_trans)
qed

lemma set_update_first:
  "x \<in> set (update_first P f xs) \<Longrightarrow> x \<in> set xs \<or> (\<exists>y\<in>set xs. x = f y)"
  by (induction xs) (auto split: if_splits)

lemma well_timed_update:
  "well_timed ts \<Longrightarrow>
   well_timed (update_first P (\<lambda>x. x\<lparr>t_checkedIn := True, t_checkInTime := Some n\<rparr>) ts)"
  unfolding well_timed_def by (auto dest!: set_update_first)

lemma checkIn_well_timed:
  "well_timed (tickets st) \<Longrightarrow> well_timed (tickets (snd (checkIn e st rq)))"
proof (cases "checkIn_find e st rq")
  case (Pair a st1)
  assume w: "well_timed (tickets st)"
  have t: "tickets st1 = tickets st" using tickets_checkIn_find[of e st rq] Pair by simp
  show ?thesis
  proof (cases a)
    case (Inl r)
    with Pair t w show ?thesis by (simp add: checkIn_def)
  next
    case (Inr found)
    with Pair t w well_timed_update[of "tickets st"] show ?thesis
      by (auto simp: checkIn_def checkIn_finish_def call_def Let_def split: option.splits)
  qed
qed

lemma webhook_well_timed:
  "well_timed (tickets st) \<Longrightarrow> well_timed (tickets (snd (webhookHandler pf e st sub)))"
  using webhook_cases[of st pf e sub]
  by (auto simp: untouched_def created_def well_timed_def)

lemma handle_well_timed:
  "well_timed (tickets st) \<Longrightarrow> well_timed (tickets (snd (handle pf e st rq)))"
  by (cases rq)
     (simp_all add: webhook_well_timed checkIn_well_timed tickets_search tickets_lookup)

lemma run_well_timed: "well_timed (tickets st) \<Longrightarrow> well_timed (tickets (run pf st rqs))"
proof (induction rqs arbitrary: st)
  case Nil
  then show ?case by simp
next
  case (Cons a rqs)
  obtain e rq where a: "a = (e, rq)" by (cases a)
  from handle_well_timed[OF Cons.prems, of pf e rq] Cons.IH[of "snd (handle pf e st rq)"]
  show ?case unfolding a by simp
qed




text \<open>
  Claim C2: when the ticket that \<^verbatim>\<open>checkIn\<close> finds is already checked in, the request fails
  with status 400 and a message made of the holder's name and the stored check-in time, and
  the ticket collection is left as it was. No run of requests of the core (webhook, search,
  check-in, lookup) turns the \<^verbatim>\<open>checkedIn\<close> flag of a stored ticket from true to false, loses
  a ticket or moves it, and neither does the second part of a check-in that runs on a stale
  copy. When every checked-in ticket has its check-in time before a run, so it is after: the
  message carries a timestamp.
\<close>

theorem already_checked_in_conflict:
  assumes "checkIn_find e st rq = (Inr (Some t), st1)" and "t_checkedIn t"
  shows "fst (checkIn e st rq) =
           Failure 400 (t_name t @ '' has already been checked in at ''
                          @ (case t_checkInTime t of None \<Rightarrow> ''undefined''
                             | Some d \<Rightarrow> toLocaleString e d))
         \<and> t \<in> set (tickets st)
         \<and> tickets (snd (checkIn e st rq)) = tickets st
         \<and> never_reverts (tickets st') (tickets (run pf st' rqs))
         \<and> never_reverts (tickets st') (tickets (snd (checkIn_finish e' st' rq' copy)))
         \<and> (well_timed (tickets st') \<longrightarrow> well_timed (tickets (run pf st' rqs)))"
  using assms found_checkIn_find[OF assms(1)] run_never_reverts[of st' pf rqs]
    run_well_timed[of st' pf rqs] checkIn_finish_reverts[of st' e' rq' copy]
  by (simp add: checkIn_def checkIn_finish_def)

theorem already_checked_in_conflict_witness:
  "fst (checkIn example_env (example_store\<lparr>tickets := [checked_joanne]\<rparr>) by_invoice_123)
     = Failure 400 ''Joanne Doe has already been checked in at 1699999000000''
   \<and> tickets (snd (checkIn example_env (example_store\<lparr>tickets := [checked_joanne]\<rparr>) by_invoice_123))
     = [checked_joanne]"
proof -
  have f: "checkIn_find example_env (example_store\<lparr>tickets := [checked_joanne]\<rparr>) by_invoice_123
     = (Inr (Some checked_joanne),
        example_store\<lparr>tickets := [checked_joanne],
          store_calls := [TicketFindOne \<lparr>by_id = None, by_invoiceNo = Some ''123'', by_event = None\<rparr>]\<rparr>)"
    by (simp add: checkIn_find_def by_invoice_123_def given_def provided_def findOne_eq
        matches_def checked_joanne_def joanne_def example_store_def example_env_fields)
  have c: "t_checkedIn checked_joanne" by (simp add: checked_joanne_def)
  have n: "t_name checked_joanne = ''Joanne Doe''" "t_checkInTime checked_joanne = Some 1699999000000"
    by (simp_all add: checked_joanne_def joanne_def)
  have s: "show_nat 1699999000000 = ''1699999000000''"
    by (simp add: show_nat.simps digit_char_def)
  from already_checked_in_conflict[OF f c, of example_store example_platform "[]"] show ?thesis
    by (simp add: n s example_env_fields)
qed

text \<open>
  Claim C10 says that a \<^verbatim>\<open>checkIn\<close> call whose \<^verbatim>\<open>ticketId\<close> is present but is not a valid
  \<^verbatim>\<open>ObjectId\<close> is answered \<^verbatim>\<open>Invalid ticket ID format\<close> without a query of the ticket
  store. The two tests of the handler (lines 295 and 304) are tests of truthiness, so a
  \<^verbatim>\<open>ticketId\<close> that is present and empty never reaches the validation: with the invoice
  number 123 beside it, the handler takes the other branch, asks the store for the ticket of
  that invoice number and checks the guest in.
\<close>

theorem empty_ticket_id_is_not_validated:
  "\<not> isValid example_env []
   \<and> fst (checkIn example_env example_store
            \<lparr>c_ticketId = Some [], c_invoiceNo = Some ''123'', c_eventId = None\<rparr>)
     = CheckedIn ''Welcome Joanne Doe! Check-in successful.''
         (view (joanne\<lparr>t_checkedIn := True, t_checkInTime := Some 1700000000000\<rparr>))
   \<and> store_calls (snd (checkIn example_env example_store
            \<lparr>c_ticketId = Some [], c_invoiceNo = Some ''123'', c_eventId = None\<rparr>))
     = [TicketFindOne \<lparr>by_id = None, by_invoiceNo = Some ''123'', by_event = None\<rparr>,
        TicketSave (joanne\<lparr>t_checkedIn := True, t_checkInTime := Some 1700000000000\<rparr>)]"
  by (simp add: checkIn_def checkIn_find_def checkIn_finish_def given_def provided_def
      findOne_eq call_def matches_def Let_def example_env_fields example_store_fields
      joanne_fields)

text \<open>
  Claim C10 as amended: a \<^verbatim>\<open>checkIn\<close> call whose \<^verbatim>\<open>ticketId\<close> is not empty and is not a valid
  \<^verbatim>\<open>ObjectId\<close> is answered with status 400 and the message \<^verbatim>\<open>Invalid ticket ID format\<close>, not
  with the 404 of a ticket that is not found, and the store is as before: no call was made to
  the document layer. An empty \<^verbatim>\<open>ticketId\<close> counts as an absent one: the call is answered as
  the same call without it, with status 400 and the message
  \<^verbatim>\<open>Ticket ID or invoice number is required\<close> when it has no invoice number either.
\<close>

lemma checkIn_finish_ticketId:
  "checkIn_finish e st (rq\<lparr>c_ticketId := x\<rparr>) found = checkIn_finish e st rq found"
  by (simp add: checkIn_finish_def)

lemma checkIn_find_empty_ticketId:
  "c_ticketId rq = Some [] \<Longrightarrow> checkIn_find e st (rq\<lparr>c_ticketId := None\<rparr>) = checkIn_find e st rq"
  by (simp add: checkIn_find_def given_def provided_def)

theorem checkIn_invalid_ticket_id:
  "(c_ticketId rq = Some i \<and> i \<noteq> [] \<and> \<not> isValid e i \<longrightarrow>
      checkIn e st rq = (Failure 400 ''Invalid ticket ID format'', st)
      \<and> store_calls (snd (checkIn e st rq)) = store_calls st)
   \<and> (c_ticketId rq = Some [] \<longrightarrow> checkIn e st rq = checkIn e st (rq\<lparr>c_ticketId := None\<rparr>))
   \<and> (c_ticketId rq = Some [] \<and> \<not> given (c_invoiceNo rq) \<longrightarrow>
        checkIn e st rq = (Failure 400 ''Ticket ID or invoice number is required'', st))"
proof (intro conjI; rule impI)
  assume "c_ticketId rq = Some i \<and> i \<noteq> [] \<and> \<not> isValid e i"
  then show "checkIn e st rq = (Failure 400 ''Invalid ticket ID format'', st)
      \<and> store_calls (snd (checkIn e st rq)) = store_calls st"
    by (simp add: checkIn_def checkIn_find_def given_def provided_def)
next
  assume "c_ticketId rq = Some []"
  then show "checkIn e st rq = checkIn e st (rq\<lparr>c_ticketId := None\<rparr>)"
    by (simp add: checkIn_def checkIn_find_empty_ticketId checkIn_finish_ticketId
        split: prod.splits sum.splits)
next
  assume "c_ticketId rq = Some [] \<and> \<not> given (c_invoiceNo rq)"
  then show "checkIn e st rq = (Failure 400 ''Ticket ID or invoice number is required'', st)"
    by (simp add: checkIn_def checkIn_find_def given_def)
qed

theorem checkIn_invalid_ticket_id_witness:
  "checkIn example_env example_store
      \<lparr>c_ticketId = Some ''not-an-id'', c_invoiceNo = None, c_eventId = None\<rparr>
     = (Failure 400 ''Invalid ticket ID format'', example_store)
   \<and> store_calls (snd (checkIn example_env example_store
         \<lparr>c_ticketId = Some ''not-an-id'', c_invoiceNo = None, c_eventId = None\<rparr>))
     = store_calls example_store
   \<and> checkIn example_env example_store
        \<lparr>c_ticketId = Some [], c_invoiceNo = Some ''123'', c_eventId = None\<rparr>
     = checkIn example_env example_store
        \<lparr>c_ticketId = None, c_invoiceNo = Some ''123'', c_eventId = None\<rparr>
   \<and> checkIn example_env example_store
        \<lparr>c_ticketId = Some [], c_invoiceNo = None, c_eventId = None\<rparr>
     = (Failure 400 ''Ticket ID or invoice number is required'', example_store)"
proof -
  from checkIn_invalid_ticket_id[of
      "\<lparr>c_ticketId = Some ''not-an-id'', c_invoiceNo = None, c_eventId = None\<rparr>"
      "''not-an-id''" example_env example_store]
  have 1: "checkIn example_env example_store
      \<lparr>c_ticketId = Some ''not-an-id'', c_invoiceNo = None, c_eventId = None\<rparr>
     = (Failure 400 ''Invalid ticket ID format'', example_store)
   \<and> store_calls (snd (checkIn example_env example_store
         \<lparr>c_ticketId = Some ''not-an-id'', c_invoiceNo = None, c_eventId = None\<rparr>))
     = store_calls example_store"
    by (simp add: example_env_fields)
  from checkIn_invalid_ticket_id[of
      "\<lparr>c_ticketId = Some [], c_invoiceNo = Some ''123'', c_eventId = None\<rparr>"
      "[]" example_env example_store]
  have 2: "checkIn example_env example_store
        \<lparr>c_ticketId = Some [], c_invoiceNo = Some ''123'', c_eventId = None\<rparr>
     = checkIn example_env example_store
        \<lparr>c_ticketId = None, c_invoiceNo = Some ''123'', c_eventId = None\<rparr>"
    by simp
  from checkIn_invalid_ticket_id[of
      "\<lparr>c_ticketId = Some [], c_invoiceNo = None, c_eventId = None\<rparr>"
      "[]" example_env example_store]
  have 3: "checkIn example_env example_store
        \<lparr>c_ticketId = Some [], c_invoiceNo = None, c_eventId = None\<rparr>
     = (Failure 400 ''Ticket ID or invoice number is required'', example_store)"
    by (auto simp: given_def)
  from 1 2 3 show ?thesis by blast
qed
















end
